theory Spec2Isabelle
  imports Complex_Main "HOL-Library.Sublist" "HOL-Library.AList" "HOL-Library.Log_Nat"
begin

section \<open>JavaScript values used by the front end\<close>

text \<open>
  The repository is a React front end. Its handlers work on JavaScript strings, numbers,
  arrays and plain objects. Strings are modelled as \<open>string\<close> (ASCII text; case mapping
  and white space outside ASCII are not modelled). Numbers are IEEE doubles: \<open>Fin r\<close>
  is the finite number with value \<open>r\<close>, with \<open>NaN\<close> and the two infinities beside it.
  \<open>Number\<close> of a text and the arithmetic of numbers round to the nearest double, ties
  to even, and overflow to an infinity. The two zeros are one value, \<open>Fin 0\<close>: they
  compare equal, are both falsy and print alike.
\<close>

datatype jsnum = NaN | Fin rat | PosInf | NegInf

datatype jsval =
    JUndefined
  | JNull
  | JBool bool
  | JNum jsnum
  | JStr string
  | JArr "jsval list"
  | JObj "(string \<times> jsval) list"

text \<open>
  \<open>JObj ps\<close> lists the own properties of a plain object in the order \<open>Object.keys\<close>
  enumerates them; a property is looked up with \<open>map_of\<close>.
\<close>

datatype error = TypeError | ReferenceError

subsection \<open>Strings\<close>

definition upper_chars :: string where
  "upper_chars = ''ABCDEFGHIJKLMNOPQRSTUVWXYZ''"

definition lower_chars :: string where
  "lower_chars = ''abcdefghijklmnopqrstuvwxyz''"

definition toLowerCase_char :: "char \<Rightarrow> char" where
  "toLowerCase_char c =
     (case map_of (zip upper_chars lower_chars) c of Some d \<Rightarrow> d | None \<Rightarrow> c)"

definition toLowerCase :: "string \<Rightarrow> string" where
  "toLowerCase s = map toLowerCase_char s"

text \<open>\<open>s.includes(q)\<close>: \<open>q\<close> occurs in \<open>s\<close> at some position.\<close>

fun includes_js :: "string \<Rightarrow> string \<Rightarrow> bool" where
  "includes_js [] q = (q = [])"
| "includes_js (c # cs) q = (prefix q (c # cs) \<or> includes_js cs q)"

text \<open>
  \<open>breakOn sep s\<close> cuts \<open>s\<close> at the first occurrence of \<open>sep\<close>: the text before it and
  the text after it.
\<close>

fun breakOn :: "string \<Rightarrow> string \<Rightarrow> (string \<times> string) option" where
  "breakOn sep [] = (if sep = [] then Some ([], []) else None)"
| "breakOn sep (c # cs) =
     (if prefix sep (c # cs) then Some ([], drop (length sep) (c # cs))
      else map_option (\<lambda>(a, b). (c # a, b)) (breakOn sep cs))"

lemma breakOn_length: "breakOn sep s = Some (a, b) \<Longrightarrow> length b + length sep \<le> length s"
proof (induction s arbitrary: a b)
  case Nil
  then show ?case by (simp split: if_splits)
next
  case (Cons c cs)
  show ?case
  proof (cases "prefix sep (c # cs)")
    case True
    then have "length sep \<le> length (c # cs)" by (rule prefix_length_le)
    with True Cons.prems show ?thesis by auto
  next
    case False
    with Cons.prems obtain a' where "breakOn sep cs = Some (a', b)" by auto
    from Cons.IH [OF this] show ?thesis by simp
  qed
qed

text \<open>
  \<open>s.split(sep)\<close> for a non-empty separator string: all the pieces between occurrences
  of \<open>sep\<close>. With the empty separator JavaScript splits into single characters.
\<close>

function split_js :: "string \<Rightarrow> string \<Rightarrow> string list" where
  "split_js sep s =
     (if sep = [] then map (\<lambda>c. [c]) s
      else (case breakOn sep s of
              None \<Rightarrow> [s]
            | Some (a, b) \<Rightarrow> a # split_js sep b))"
  by pat_completeness auto
termination
proof (relation "measure (\<lambda>(sep, s). length s)")
  show "wf (measure (\<lambda>(sep, s). length s))" by simp
next
  fix sep s :: string and x2 a b
  assume "sep \<noteq> []" and "breakOn sep s = Some x2" and "(a, b) = x2"
  then have "breakOn sep s = Some (a, b)" by simp
  from breakOn_length [OF this] \<open>sep \<noteq> []\<close> have "length b < length s"
    by (cases sep) auto
  then show "((sep, b), (sep, s)) \<in> measure (\<lambda>(sep, s). length s)" by simp
qed

declare split_js.simps [simp del]

text \<open>\<open>s.padStart(n, "0")\<close>.\<close>

definition padStart0 :: "nat \<Rightarrow> string \<Rightarrow> string" where
  "padStart0 n s = replicate (n - length s) (CHR ''0'') @ s"

definition isWhiteSpace :: "char \<Rightarrow> bool" where
  "isWhiteSpace c = (c \<in> set [CHR 0x09, CHR 0x0A, CHR 0x0B, CHR 0x0C, CHR 0x0D, CHR '' ''])"

definition trim_js :: "string \<Rightarrow> string" where
  "trim_js s = rev (dropWhile isWhiteSpace (rev (dropWhile isWhiteSpace s)))"

subsection \<open>Numbers and their text\<close>

definition digitVal :: "char \<Rightarrow> nat option" where
  "digitVal c =
     map_of
       [(CHR ''0'', 0), (CHR ''1'', 1), (CHR ''2'', 2), (CHR ''3'', 3), (CHR ''4'', 4),
        (CHR ''5'', 5), (CHR ''6'', 6), (CHR ''7'', 7), (CHR ''8'', 8), (CHR ''9'', 9),
        (CHR ''a'', 10), (CHR ''b'', 11), (CHR ''c'', 12), (CHR ''d'', 13), (CHR ''e'', 14),
        (CHR ''f'', 15),
        (CHR ''A'', 10), (CHR ''B'', 11), (CHR ''C'', 12), (CHR ''D'', 13), (CHR ''E'', 14),
        (CHR ''F'', 15)] c"

definition isDigitIn :: "nat \<Rightarrow> char \<Rightarrow> bool" where
  "isDigitIn radix c = (case digitVal c of Some d \<Rightarrow> d < radix | None \<Rightarrow> False)"

definition isDigit :: "char \<Rightarrow> bool" where
  "isDigit c = (c \<in> set ''0123456789'')"

definition digitsValue :: "nat \<Rightarrow> string \<Rightarrow> nat" where
  "digitsValue radix ds =
     foldl (\<lambda>a c. radix * a + (case digitVal c of Some d \<Rightarrow> d | None \<Rightarrow> 0)) 0 ds"

text \<open>The decimal digits of a natural number, as the template literal prints it.\<close>

fun natToString :: "nat \<Rightarrow> string" where
  "natToString n =
     (if n < 10 then [''0123456789'' ! n]
      else natToString (n div 10) @ [''0123456789'' ! (n mod 10)])"

declare natToString.simps [simp del]

definition neg_js :: "jsnum \<Rightarrow> jsnum" where
  "neg_js x = (case x of NaN \<Rightarrow> NaN | Fin r \<Rightarrow> Fin (- r) | PosInf \<Rightarrow> NegInf | NegInf \<Rightarrow> PosInf)"

definition digitsOpt :: "string \<Rightarrow> nat option" where
  "digitsOpt ds = (if ds \<noteq> [] \<and> list_all isDigit ds then Some (digitsValue 10 ds) else None)"

definition scale10 :: "rat \<Rightarrow> bool \<Rightarrow> nat \<Rightarrow> rat" where
  "scale10 m negative e = (if negative then m / 10 ^ e else m * 10 ^ e)"

text \<open>The exponent part after \<open>e\<close> or \<open>E\<close>: an optional sign and at least one digit.\<close>

definition ExponentPart :: "rat \<Rightarrow> string \<Rightarrow> jsnum" where
  "ExponentPart m s =
     (case s of
        [] \<Rightarrow> NaN
      | c # t \<Rightarrow>
          if c = CHR ''+'' then (case digitsOpt t of None \<Rightarrow> NaN | Some e \<Rightarrow> Fin (scale10 m False e))
          else if c = CHR ''-'' then (case digitsOpt t of None \<Rightarrow> NaN | Some e \<Rightarrow> Fin (scale10 m True e))
          else (case digitsOpt s of None \<Rightarrow> NaN | Some e \<Rightarrow> Fin (scale10 m False e)))"

text \<open>
  The unsigned decimal literals of the string-to-number grammar: \<open>Infinity\<close>, digits with
  an optional fraction, or a fraction alone, each with an optional exponent.
\<close>

definition StrUnsignedDecimalLiteral :: "string \<Rightarrow> jsnum" where
  "StrUnsignedDecimalLiteral s =
     (if s = ''Infinity'' then PosInf
      else
        let ip = takeWhile isDigit s;
            r1 = dropWhile isDigit s;
            hasDot = (r1 \<noteq> [] \<and> hd r1 = CHR ''.'');
            fp = (if hasDot then takeWhile isDigit (tl r1) else []);
            r2 = (if hasDot then dropWhile isDigit (tl r1) else r1);
            m = of_nat (digitsValue 10 ip) + of_nat (digitsValue 10 fp) / 10 ^ length fp
        in if ip = [] \<and> fp = [] then NaN
           else (case r2 of
                   [] \<Rightarrow> Fin m
                 | c # t \<Rightarrow> if c = CHR ''e'' \<or> c = CHR ''E'' then ExponentPart m t else NaN))"

definition radixOf :: "char \<Rightarrow> nat option" where
  "radixOf c =
     map_of
       [(CHR ''x'', 16), (CHR ''X'', 16), (CHR ''o'', 8), (CHR ''O'', 8), (CHR ''b'', 2),
        (CHR ''B'', 2)] c"

definition NonDecimalIntegerLiteral :: "nat \<Rightarrow> string \<Rightarrow> jsnum" where
  "NonDecimalIntegerLiteral radix ds =
     (if ds \<noteq> [] \<and> list_all (isDigitIn radix) ds then Fin (of_nat (digitsValue radix ds)) else NaN)"

text \<open>
  The value of a text as a number, before it is rounded: white space is trimmed, the
  empty text is 0, a \<open>0x\<close>, \<open>0o\<close> or \<open>0b\<close> prefix reads an unsigned integer in that
  radix, and anything else is an optionally signed decimal literal or \<open>NaN\<close>.
\<close>

definition StringToNumber :: "string \<Rightarrow> jsnum" where
  "StringToNumber s =
     (let t = trim_js s in
      case t of
        [] \<Rightarrow> Fin 0
      | c # u \<Rightarrow>
          (case (if c = CHR ''0'' \<and> u \<noteq> [] then radixOf (hd u) else None) of
             Some radix \<Rightarrow> NonDecimalIntegerLiteral radix (tl u)
           | None \<Rightarrow>
               if c = CHR ''+'' then StrUnsignedDecimalLiteral u
               else if c = CHR ''-'' then neg_js (StrUnsignedDecimalLiteral u)
               else StrUnsignedDecimalLiteral t))"

text \<open>
  Rounding to a double. \<open>ilog2 a\<close> is the exponent of a positive \<open>a\<close>, the \<open>e\<close> with
  \<open>2^e \<le> a < 2^(e+1)\<close>, found from the bit lengths of the numerator and the
  denominator. A double has 53 significant bits and an exponent of at least -1022, so
  around \<open>a\<close> the doubles are the multiples of \<open>2^(max e (-1022) - 52)\<close>.
  \<open>roundToDouble\<close> takes the nearest multiple, the even one when two are equally near,
  and an infinity when that multiple is \<open>2^1024\<close> or more.
\<close>

definition pow2 :: "int \<Rightarrow> rat" where
  "pow2 e = (if 0 \<le> e then 2 ^ nat e else 1 / 2 ^ nat (- e))"

definition roundHalfEven :: "rat \<Rightarrow> int" where
  "roundHalfEven x =
     (let f = \<lfloor>x\<rfloor>; d = x - of_int f
      in if d < 1 / 2 then f else if 1 / 2 < d then f + 1 else if even f then f else f + 1)"

definition ilog2 :: "rat \<Rightarrow> int" where
  "ilog2 a =
     (let (p, q) = quotient_of a; k = bitlen p - bitlen q
      in if pow2 k \<le> a then k else k - 1)"

definition roundToDouble :: "rat \<Rightarrow> jsnum" where
  "roundToDouble x =
     (if x = 0 then Fin 0
      else
        let a = \<bar>x\<bar>;
            e = max (ilog2 a) (- 1022) - 52;
            r = of_int (roundHalfEven (a / pow2 e)) * pow2 e
        in if pow2 1024 \<le> r then (if x < 0 then NegInf else PosInf)
           else Fin (if x < 0 then - r else r))"

definition roundNumber :: "jsnum \<Rightarrow> jsnum" where
  "roundNumber n = (case n of Fin r \<Rightarrow> roundToDouble r | _ \<Rightarrow> n)"

text \<open>\<open>Number(s)\<close> for a string \<open>s\<close>: the value of the text, rounded to a double.\<close>

definition NumberString :: "string \<Rightarrow> jsnum" where
  "NumberString s = roundNumber (StringToNumber s)"

subsection \<open>Comparison and arithmetic of numbers\<close>

text \<open>\<open>a < b\<close> and \<open>a >= b\<close> on numbers; every comparison with \<open>NaN\<close> is false.\<close>

fun lt_js :: "jsnum \<Rightarrow> jsnum \<Rightarrow> bool" where
  "lt_js (Fin x) (Fin y) = (x < y)"
| "lt_js (Fin x) PosInf = True"
| "lt_js NegInf (Fin y) = True"
| "lt_js NegInf PosInf = True"
| "lt_js _ _ = False"

fun ge_js :: "jsnum \<Rightarrow> jsnum \<Rightarrow> bool" where
  "ge_js (Fin x) (Fin y) = (y \<le> x)"
| "ge_js PosInf (Fin y) = True"
| "ge_js (Fin x) NegInf = True"
| "ge_js PosInf NegInf = True"
| "ge_js PosInf PosInf = True"
| "ge_js NegInf NegInf = True"
| "ge_js _ _ = False"


text \<open>\<open>x * k\<close> for a finite factor \<open>k\<close>; the product of two finite numbers is rounded.\<close>

definition times_js :: "jsnum \<Rightarrow> rat \<Rightarrow> jsnum" where
  "times_js x k =
     (case x of
        NaN \<Rightarrow> NaN
      | Fin r \<Rightarrow> roundToDouble (r * k)
      | PosInf \<Rightarrow> (if 0 < k then PosInf else if k < 0 then NegInf else NaN)
      | NegInf \<Rightarrow> (if 0 < k then NegInf else if k < 0 then PosInf else NaN))"

subsection \<open>Values: truthiness, conversion, property access\<close>

text \<open>
  What the browser provides and the front end only calls is kept in a record: the text
  of a finite number (\<open>Number::toString\<close>), \<open>atob\<close> and \<open>JSON.parse\<close> (\<open>None\<close> when they
  throw), the clock \<open>Date.now()\<close> in milliseconds and today's date as
  \<open>new Date().toISOString().slice(0, 10)\<close> gives it.
\<close>

record runtime =
  num_toString :: "rat \<Rightarrow> string"
  atob :: "string \<Rightarrow> string option"
  JSON_parse :: "string \<Rightarrow> jsval option"
  Date_now :: rat
  today :: string

fun truthy :: "jsval \<Rightarrow> bool" where
  "truthy JUndefined = False"
| "truthy JNull = False"
| "truthy (JBool b) = b"
| "truthy (JNum n) = (n \<noteq> NaN \<and> n \<noteq> Fin 0)"
| "truthy (JStr s) = (s \<noteq> [])"
| "truthy (JArr xs) = True"
| "truthy (JObj ps) = True"

definition nullish :: "jsval \<Rightarrow> bool" where
  "nullish v = (v = JUndefined \<or> v = JNull)"

text \<open>\<open>a || b\<close> and \<open>a ?? b\<close>.\<close>

definition or_js :: "jsval \<Rightarrow> jsval \<Rightarrow> jsval" where
  "or_js a b = (if truthy a then a else b)"

definition coalesce :: "jsval \<Rightarrow> jsval \<Rightarrow> jsval" where
  "coalesce a b = (if nullish a then b else a)"

fun join_js :: "string \<Rightarrow> string list \<Rightarrow> string" where
  "join_js sep [] = []"
| "join_js sep [x] = x"
| "join_js sep (x # y # ys) = x @ sep @ join_js sep (y # ys)"

text \<open>
  \<open>String(v)\<close>. An array joins the texts of its elements with commas, null and
  undefined elements giving the empty text; a plain object prints as
  \<open>[object Object]\<close>.
\<close>

fun ToString :: "runtime \<Rightarrow> jsval \<Rightarrow> string" where
  "ToString rt JUndefined = ''undefined''"
| "ToString rt JNull = ''null''"
| "ToString rt (JBool b) = (if b then ''true'' else ''false'')"
| "ToString rt (JNum n) =
     (case n of
        NaN \<Rightarrow> ''NaN''
      | Fin r \<Rightarrow> num_toString rt r
      | PosInf \<Rightarrow> ''Infinity''
      | NegInf \<Rightarrow> ''-Infinity'')"
| "ToString rt (JStr s) = s"
| "ToString rt (JArr xs) =
     join_js '','' (map (\<lambda>v. if v = JUndefined \<or> v = JNull then [] else ToString rt v) xs)"
| "ToString rt (JObj ps) = ''[object Object]''"

text \<open>\<open>Number(v)\<close>, also the conversion behind \<open>isNaN(v)\<close>, \<open>v < 0\<close> and \<open>v * 1000\<close>.\<close>

definition ToNumber :: "runtime \<Rightarrow> jsval \<Rightarrow> jsnum" where
  "ToNumber rt v =
     (case v of
        JUndefined \<Rightarrow> NaN
      | JNull \<Rightarrow> Fin 0
      | JBool b \<Rightarrow> (if b then Fin 1 else Fin 0)
      | JNum n \<Rightarrow> n
      | JStr s \<Rightarrow> NumberString s
      | JArr xs \<Rightarrow> NumberString (ToString rt v)
      | JObj ps \<Rightarrow> NumberString (ToString rt v))"

text \<open>
  \<open>o.k\<close> fails on null and undefined; on a plain object it is the property or
  undefined. The keys read by the front end (\<open>errors\<close>, \<open>detail\<close>, \<open>message\<close>, \<open>exp\<close>,
  \<open>role\<close>, \<open>results\<close>, \<open>value\<close>, \<open>label\<close>, \<open>code\<close>, \<open>status\<close>) are not properties of
  strings, numbers, booleans or arrays, so there the result is undefined.
  \<open>o?.k\<close> gives undefined where \<open>o.k\<close> fails.
\<close>

definition getProp :: "jsval \<Rightarrow> string \<Rightarrow> error + jsval" where
  "getProp v k =
     (case v of
        JUndefined \<Rightarrow> Inl TypeError
      | JNull \<Rightarrow> Inl TypeError
      | JObj ps \<Rightarrow> Inr (case map_of ps k of Some x \<Rightarrow> x | None \<Rightarrow> JUndefined)
      | _ \<Rightarrow> Inr JUndefined)"

definition optProp :: "jsval \<Rightarrow> string \<Rightarrow> jsval" where
  "optProp v k = (case getProp v k of Inl e \<Rightarrow> JUndefined | Inr x \<Rightarrow> x)"

text \<open>
  The arrays held in component state. A slot of such an array holds a value or is empty
  (\<open>None\<close>): \<open>xs[i] = v\<close> past the end extends the array and leaves the slots between
  the old end and \<open>i\<close> empty. \<open>xs[i]\<close> reads undefined from an empty slot and past the
  end; \<open>[...xs]\<close> copies the array with undefined in the place of every empty slot;
  \<open>every\<close>, \<open>some\<close> and \<open>reduce\<close> visit only the slots that hold a value, while
  \<open>length\<close> counts every slot.
\<close>

type_synonym js_array = "jsval option list"

definition array_get :: "js_array \<Rightarrow> nat \<Rightarrow> jsval" where
  "array_get xs i =
     (if i < length xs then (case xs ! i of None \<Rightarrow> JUndefined | Some v \<Rightarrow> v)
      else JUndefined)"

definition array_set :: "js_array \<Rightarrow> nat \<Rightarrow> jsval \<Rightarrow> js_array" where
  "array_set xs i v =
     (if i < length xs then xs[i := Some v]
      else xs @ replicate (i - length xs) None @ [Some v])"

definition spread :: "js_array \<Rightarrow> js_array" where
  "spread xs = map (\<lambda>x. Some (case x of None \<Rightarrow> JUndefined | Some v \<Rightarrow> v)) xs"




text \<open>\<open>Object.keys\<close> and \<open>o[k]\<close> for a computed key, on arrays and plain objects.\<close>

definition Object_keys :: "jsval \<Rightarrow> string list" where
  "Object_keys v =
     (case v of
        JObj ps \<Rightarrow> map fst ps
      | JArr xs \<Rightarrow> map natToString [0 ..< length xs]
      | _ \<Rightarrow> [])"

definition getIndex :: "jsval \<Rightarrow> jsval \<Rightarrow> jsval" where
  "getIndex v key =
     (let k = (case key of JStr s \<Rightarrow> s | _ \<Rightarrow> ''undefined'') in
      case v of
        JObj ps \<Rightarrow> (case map_of ps k of Some x \<Rightarrow> x | None \<Rightarrow> JUndefined)
      | JArr xs \<Rightarrow>
          (case find (\<lambda>i. natToString i = k) [0 ..< length xs] of
             Some i \<Rightarrow> xs ! i
           | None \<Rightarrow> JUndefined)
      | _ \<Rightarrow> JUndefined)"

definition typeof_js :: "jsval \<Rightarrow> string" where
  "typeof_js v =
     (case v of
        JUndefined \<Rightarrow> ''undefined''
      | JNull \<Rightarrow> ''object''
      | JBool b \<Rightarrow> ''boolean''
      | JNum n \<Rightarrow> ''number''
      | JStr s \<Rightarrow> ''string''
      | JArr xs \<Rightarrow> ''object''
      | JObj ps \<Rightarrow> ''object'')"

section \<open>The weekly-evaluation form\<close>

subsection \<open>Week strings\<close>

text \<open>
  \<open>formatWeekValue\<close> builds the value of the week picker from a year and a week number,
  here natural numbers, which the template literal prints as their decimal digits (as it
  does for every integer below \<open>10^21\<close>).
  \<open>parseWeek\<close> reads such a value back; the array pattern \<open>[year, weekStr]\<close> takes the
  first two pieces of the split, and a missing piece is \<open>undefined\<close>, whose number is
  \<open>NaN\<close>. The digits of a year and of a week are read at their value: the week values
  of the form have a few digits, and every natural number below \<open>2^53\<close> is a double.
\<close>

record week_parts =
  year :: jsval
  week :: jsval

definition formatWeekValue :: "nat \<Rightarrow> nat \<Rightarrow> string" where
  "formatWeekValue y w = natToString y @ ''-W'' @ padStart0 2 (natToString w)"

definition parseWeek :: "string \<Rightarrow> week_parts" where
  "parseWeek weekValue =
     (if weekValue = [] \<or> \<not> includes_js weekValue ''-W'' then \<lparr>year = JNull, week = JNull\<rparr>
      else (case split_js ''-W'' weekValue of
              y # w # _ \<Rightarrow> \<lparr>year = JNum (StringToNumber y), week = JNum (StringToNumber w)\<rparr>
            | [y] \<Rightarrow> \<lparr>year = JNum (StringToNumber y), week = JNum NaN\<rparr>
            | [] \<Rightarrow> \<lparr>year = JNum NaN, week = JNum NaN\<rparr>))"

subsection \<open>Component state\<close>

text \<open>
  The state of \<open>PerformanceMetrics\<close> that the score and submit handlers read or write.
  \<open>employeeName\<close> is \<open>employeeData.name\<close>. The arrays \<open>scores\<close> and \<open>comments\<close> hold
  what was typed (strings) or what the backend delivered for the evaluation.
\<close>

record validation_modal =
  modal_show :: bool
  modal_message :: string

record form_state =
  employeeId :: string
  employeeName :: string
  scores :: js_array
  comments :: js_array
  selectedWeek :: string
  evaluationId :: jsval
  validationModal :: validation_modal

subsection \<open>Typing a score\<close>

text \<open>\<open>value.replace(/^0+/, "") || "0"\<close>.\<close>

definition stripLeadingZeros :: "string \<Rightarrow> string" where
  "stripLeadingZeros v = (let r = dropWhile (\<lambda>c. c = CHR ''0'') v in if r = [] then ''0'' else r)"

text \<open>The value as it stands after the leading-zero step of \<open>handleScoreChange\<close>.\<close>

definition normaliseScore :: "string \<Rightarrow> string" where
  "normaliseScore v = (if 1 < length v \<and> hd v = CHR ''0'' then stripLeadingZeros v else v)"

text \<open>
  \<open>handleScoreChange\<close> works on the copy \<open>[...scores]\<close> and stores it with \<open>setScores\<close>
  when the value is accepted; otherwise it opens the validation modal.
\<close>

definition handleScoreChange :: "nat \<Rightarrow> string \<Rightarrow> form_state \<Rightarrow> form_state" where
  "handleScoreChange index v st =
     (let updatedScores = spread (scores st) in
      if v = [] then st\<lparr>scores := array_set updatedScores index (JStr [])\<rparr>
      else if v = ''0'' then st\<lparr>scores := array_set updatedScores index (JStr ''0'')\<rparr>
      else
        let v' = normaliseScore v;
            num = NumberString v'
        in if num = NaN \<or> lt_js num (Fin 0) then
             st\<lparr>validationModal :=
                  \<lparr>modal_show = True,
                   modal_message = ''Please enter a valid number between 0 and 100.''\<rparr>\<rparr>
           else if lt_js (Fin 100) num then
             st\<lparr>validationModal :=
                  \<lparr>modal_show = True, modal_message = ''Score cannot exceed 100.''\<rparr>\<rparr>
           else st\<lparr>scores := array_set updatedScores index (JStr v')\<rparr>)"

subsection \<open>Submitting an evaluation\<close>

text \<open>
  \<open>getUserRole\<close> reads two items of local storage. \<open>stored_user\<close> is the variable
  \<open>user\<close> after the \<open>try\<close>: what \<open>JSON.parse\<close> made of the item stored under \<open>user\<close>,
  null when the item is missing or does not parse. \<open>stored_role\<close> is
  \<open>localStorage.getItem("role")\<close>. The role is
  \<open>user?.role || localStorage.getItem("role") || ""\<close>, and \<open>role.toLowerCase()\<close> calls a
  method that only strings have: a role that is a number, \<open>true\<close>, an array or an
  object raises a TypeError, which nothing in \<open>handleSubmit\<close> catches.
\<close>

record storage_view =
  stored_user :: jsval
  stored_role :: "string option"

definition getUserRole :: "storage_view \<Rightarrow> error + string" where
  "getUserRole ls =
     (let role =
            or_js
              (or_js (optProp (stored_user ls) ''role'')
                 (case stored_role ls of None \<Rightarrow> JNull | Some s \<Rightarrow> JStr s))
              (JStr [])
      in case role of JStr s \<Rightarrow> Inr (toLowerCase s) | _ \<Rightarrow> Inl TypeError)"












subsection \<open>The message of a failed request\<close>

definition extractBackendError :: "jsval \<Rightarrow> jsval" where
  "extractBackendError err =
     (let data = optProp (optProp err ''response'') ''data'' in
      if truthy (optProp data ''errors'') \<and> typeof_js (optProp data ''errors'') = ''object'' then
        (let errors = optProp data ''errors'';
             firstKey = (case Object_keys errors of [] \<Rightarrow> JUndefined | k # _ \<Rightarrow> JStr k)
         in getIndex errors firstKey)
      else if truthy (optProp data ''detail'') then optProp data ''detail''
      else if truthy (optProp data ''message'') then optProp data ''message''
      else if typeof_js data = ''string'' then data
      else JStr ''Unable to process your request. Please try again.'')"

subsection \<open>The guards of the submit handler\<close>









text \<open>
  Sample inputs: a browser (one that prints a number as the decimal digits of its integer
  part, decodes \<open>e30\<close> to \<open>{}\<close> and parses \<open>{}\<close>), forms and contents of local storage.
  \<open>sparse_form\<close> is \<open>filled_form\<close> with the scores a form with no score slot is left
  with when 5 is typed into its second row.
\<close>

definition sample_runtime :: runtime where
  "sample_runtime =
     \<lparr>num_toString = (\<lambda>r. if r < 0 then CHR ''-'' # natToString (nat \<lfloor>- r\<rfloor>) else natToString (nat \<lfloor>r\<rfloor>)),
      atob = (\<lambda>s. if s = ''e30'' then Some ''{}'' else None),
      JSON_parse = (\<lambda>s. if s = ''{}'' then Some (JObj []) else None),
      Date_now = 1700000000000,
      today = ''2025-02-14''\<rparr>"

definition sample_form :: form_state where
  "sample_form =
     \<lparr>employeeId = ''EMP001'', employeeName = ''Asha'',
      scores = [Some (JStr ''80''), Some (JStr [])],
      comments = [Some (JStr []), Some (JStr [])], selectedWeek = ''2025-W07'',
      evaluationId = JNull,
      validationModal = \<lparr>modal_show = False, modal_message = []\<rparr>\<rparr>"






subsection \<open>Reading the body of a failed response\<close>

text \<open>
  The message of the first field of an errors object, in the order of its keys; an
  array counts as an object whose first field is its first element.
\<close>

definition firstFieldMessage :: "jsval \<Rightarrow> jsval" where
  "firstFieldMessage errors =
     (case errors of
        JObj ps \<Rightarrow> (case ps of [] \<Rightarrow> JUndefined | p # _ \<Rightarrow> snd p)
      | JArr xs \<Rightarrow> (case xs of [] \<Rightarrow> JUndefined | x # _ \<Rightarrow> x)
      | _ \<Rightarrow> JUndefined)"

definition isObject :: "jsval \<Rightarrow> bool" where
  "isObject v = (case v of JObj ps \<Rightarrow> True | JArr xs \<Rightarrow> True | _ \<Rightarrow> False)"

definition responseData :: "jsval \<Rightarrow> jsval" where
  "responseData err = optProp (optProp err ''response'') ''data''"

text \<open>A sample rejection: an error object carrying a response with the given body.\<close>

definition response_with :: "jsval \<Rightarrow> jsval" where
  "response_with body = JObj [(''response'', JObj [(''status'', JNum (Fin 400)), (''data'', body)])]"

section \<open>Routing\<close>

text \<open>
  Local storage as the routes read it: \<open>ls k\<close> is \<open>localStorage.getItem(k)\<close>, \<open>None\<close> for
  null. A route element either renders a view or is a \<open>Navigate\<close> to another path.
\<close>

type_synonym local_storage = "string \<Rightarrow> string option"

datatype element = Render string | Navigate string

record route =
  path :: string
  name :: string
  element :: "local_storage \<Rightarrow> element"

text \<open>The last entry of the \<open>routes\<close> table.\<close>

definition lifecycleHistoryRoute :: route where
  "lifecycleHistoryRoute =
     \<lparr>path = ''/employee-lifecycle/history'',
      name = ''Employee Lifecycle History'',
      element = (\<lambda>ls.
        let role = map_option toLowerCase (ls ''role'')
        in if role = Some ''admin'' then Render ''EmployeeLifecycleHistory''
           else Navigate ''/dashboard'')\<rparr>"

text \<open>
  The index route of \<open>AppContent\<close>. Its result is the target of the \<open>Navigate\<close> it
  returns and whether \<open>localStorage.clear()\<close> ran on the way.
\<close>

record index_result =
  cleared :: bool
  target :: string

definition getDefaultRoute :: "string option \<Rightarrow> string" where
  "getDefaultRoute role =
     (case role of
        None \<Rightarrow> ''/login''
      | Some r \<Rightarrow>
          if r = [] then ''/login''
          else if toLowerCase r = ''employee'' then ''/employee-dashboard''
          else ''/dashboard'')"

text \<open>
  \<open>JSON.parse(atob(token.split(".")[1]))\<close>; \<open>None\<close> when it throws. A token without a
  dot has no second piece, and \<open>atob\<close> is then applied to the text \<open>undefined\<close>.
\<close>

definition tokenPayload :: "runtime \<Rightarrow> string \<Rightarrow> jsval option" where
  "tokenPayload rt token =
     (let parts = split_js ''.'' token;
          piece = (if 1 < length parts then parts ! 1 else ''undefined'')
      in case atob rt piece of None \<Rightarrow> None | Some txt \<Rightarrow> JSON_parse rt txt)"

definition indexElement :: "runtime \<Rightarrow> local_storage \<Rightarrow> index_result" where
  "indexElement rt ls =
     (let role = ls ''role'' in
      case ls ''access_token'' of
        None \<Rightarrow> \<lparr>cleared = False, target = ''/login''\<rparr>
      | Some token \<Rightarrow>
          if token = [] then \<lparr>cleared = False, target = ''/login''\<rparr>
          else
            (case tokenPayload rt token of
               None \<Rightarrow> \<lparr>cleared = True, target = ''/login''\<rparr>
             | Some payload \<Rightarrow>
                 (case getProp payload ''exp'' of
                    Inl e \<Rightarrow> \<lparr>cleared = True, target = ''/login''\<rparr>
                  | Inr exp_claim \<Rightarrow>
                      let expiry = times_js (ToNumber rt exp_claim) 1000 in
                      if ge_js (Fin (Date_now rt)) expiry
                      then \<lparr>cleared = True, target = ''/login''\<rparr>
                      else \<lparr>cleared = False, target = getDefaultRoute role\<rparr>)))"

text \<open>
  \<open>isTokenValid\<close> of \<open>App.js\<close>, which guards the protected routes:
  \<open>JSON.parse(atob(token.split(".")?.[1] || ""))\<close>, then \<open>Date.now() < expiry\<close>.
\<close>

definition isTokenValid :: "runtime \<Rightarrow> local_storage \<Rightarrow> bool" where
  "isTokenValid rt ls =
     (case ls ''access_token'' of
        None \<Rightarrow> False
      | Some token \<Rightarrow>
          if token = [] then False
          else
            (let parts = split_js ''.'' token;
                 piece = (if 1 < length parts then parts ! 1 else [])
             in case atob rt piece of
                  None \<Rightarrow> False
                | Some txt \<Rightarrow>
                    (case JSON_parse rt txt of
                       None \<Rightarrow> False
                     | Some payload \<Rightarrow>
                         (case getProp payload ''exp'' of
                            Inl e \<Rightarrow> False
                          | Inr exp_claim \<Rightarrow>
                              lt_js (Fin (Date_now rt)) (times_js (ToNumber rt exp_claim) 1000)))))"








section \<open>The master-data module\<close>

text \<open>
  Rows of a master table and the state of the add/edit form are plain objects: lists of
  properties in key order. \<open>lookup o k\<close> is \<open>o[k]\<close>.
\<close>

type_synonym js_object = "(string \<times> jsval) list"

definition lookup :: "js_object \<Rightarrow> string \<Rightarrow> jsval" where
  "lookup obj k = (case map_of obj k of Some v \<Rightarrow> v | None \<Rightarrow> JUndefined)"

subsection \<open>The add/edit modal\<close>

text \<open>
  The \<open>onChange\<close> handler of a select field with key \<open>fkey\<close> in \<open>AddNewModal\<close>: the new form
  state, and the department passed to \<open>onDepartmentChange\<close> when the field is
  \<open>department_id\<close> and the callback was supplied. \<open>raw\<close> is \<open>e.target.value\<close>.
\<close>

record select_effect =
  new_form :: js_object
  department_changed :: "jsval option"

definition selectChange :: "bool \<Rightarrow> string \<Rightarrow> string \<Rightarrow> js_object \<Rightarrow> select_effect" where
  "selectChange hasOnDepartmentChange fkey raw form =
     (let v = JNum (StringToNumber raw);
          updatedForm =
            AList.update fkey
              (if fkey = ''managers'' then (if truthy v then JArr [v] else JArr []) else v) form
      in if fkey = ''department_id'' then
           \<lparr>new_form = AList.update ''managers'' (JArr []) updatedForm,
            department_changed = (if hasOnDepartmentChange then Some v else None)\<rparr>
         else \<lparr>new_form = updatedForm, department_changed = None\<rparr>)"

text \<open>The \<open>onChange\<close> handler of a text input with key \<open>fkey\<close>.\<close>

definition inputChange :: "string \<Rightarrow> string \<Rightarrow> js_object \<Rightarrow> js_object" where
  "inputChange fkey txt form = AList.update fkey (JStr txt) form"

subsection \<open>The table panel\<close>

record column =
  key :: string
  label :: string

text \<open>\<open>String(r[c.key] ?? "")\<close>.\<close>

definition cellText :: "runtime \<Rightarrow> js_object \<Rightarrow> column \<Rightarrow> string" where
  "cellText rt r c = ToString rt (coalesce (lookup r (key c)) (JStr []))"

text \<open>The memoised \<open>filtered\<close> rows of \<open>TablePanel\<close>.\<close>

definition filtered :: "runtime \<Rightarrow> string \<Rightarrow> js_object list \<Rightarrow> column list \<Rightarrow> js_object list" where
  "filtered rt search data columns =
     (if search = [] then data
      else
        let q = toLowerCase search in
        filter (\<lambda>r. list_ex (\<lambda>c. includes_js (toLowerCase (cellText rt r c)) q) columns) data)"

text \<open>Sample rows and columns of the roles page.\<close>

definition role_columns :: "column list" where
  "role_columns =
     [\<lparr>key = ''name'', label = ''Role Name''\<rparr>, \<lparr>key = ''status'', label = ''Status''\<rparr>,
      \<lparr>key = ''actions'', label = ''Actions''\<rparr>]"

definition role_rows :: "js_object list" where
  "role_rows =
     [[(''id'', JNum (Fin 1)), (''name'', JStr ''Admin''), (''status'', JStr ''Active'')],
      [(''id'', JNum (Fin 2)), (''name'', JStr ''Manager''), (''status'', JStr ''Inactive'')],
      [(''id'', JNum (Fin 3)), (''name'', JStr ''Employee''), (''status'', JStr ''Active'')]]"

definition project_form :: js_object where
  "project_form =
     [(''name'', JStr ''Payroll''), (''department_id'', JNum (Fin 2)),
      (''managers'', JArr [JNum (Fin 7)])]"

subsection \<open>The department-deactivation modal\<close>

text \<open>
  The \<open>disabled\<close> attribute of the Deactivate button is computed by the expression
  \<open>!reason || loading || previewLoading || !confirmed\<close>. Expressions of this shape are
  evaluated over the identifiers in scope: a name holds data, or it holds a function or
  a module object (\<open>Opaque\<close>, always truthy). Reading a name that is not bound raises a
  \<open>ReferenceError\<close>, and \<open>||\<close> evaluates its right operand only when the left one is
  falsy.
\<close>

datatype binding = Data jsval | Opaque

datatype expr = Ident string | Not expr | Or expr expr

definition truthy_binding :: "binding \<Rightarrow> bool" where
  "truthy_binding b = (case b of Data v \<Rightarrow> truthy v | Opaque \<Rightarrow> True)"

fun eval :: "(string \<times> binding) list \<Rightarrow> expr \<Rightarrow> error + binding" where
  "eval scope (Ident x) =
     (case map_of scope x of None \<Rightarrow> Inl ReferenceError | Some b \<Rightarrow> Inr b)"
| "eval scope (Not e) =
     (case eval scope e of
        Inl err \<Rightarrow> Inl err
      | Inr b \<Rightarrow> Inr (Data (JBool (\<not> truthy_binding b))))"
| "eval scope (Or l r) =
     (case eval scope l of
        Inl err \<Rightarrow> Inl err
      | Inr b \<Rightarrow> if truthy_binding b then Inr b else eval scope r)"

text \<open>
  The props and the state of \<open>DeactivateDepartmentModal\<close>, and every identifier bound
  where its body is evaluated: the parameters, the state hooks, and the imports and
  declarations of the module.
\<close>

record deactivate_modal =
  department :: jsval
  loading :: bool
  preview :: jsval
  previewLoading :: bool
  reason :: string

definition module_names :: "string list" where
  "module_names =
     [''React'', ''useEffect'', ''useState'', ''useMemo'', ''useParams'', ''Navigate'',
      ''axiosInstance'', ''useMasterData'', ''EmployeeLifecycleAPI'', ''MasterAPI'',
      ''EmployeeRoleAPI'', ''PageLayout'', ''AlertMessage'', ''TablePanel'', ''renderCell'',
      ''AddNewModal'', ''ConfirmDeleteModal'', ''DeactivateDepartmentModal'',
      ''GenericCRUDPage'', ''RolesPage'', ''DepartmentsPage'', ''MeasurementsPage'',
      ''ProjectsPage'', ''EmployeeRoleAssignmentsPage'', ''formatDate'', ''MasterModule'']"

definition modalScope :: "deactivate_modal \<Rightarrow> (string \<times> binding) list" where
  "modalScope st =
     [(''department'', Data (department st)),
      (''onConfirm'', Opaque),
      (''onCancel'', Opaque),
      (''loading'', Data (JBool (loading st))),
      (''preview'', Data (preview st)),
      (''setPreview'', Opaque),
      (''previewLoading'', Data (JBool (previewLoading st))),
      (''setPreviewLoading'', Opaque),
      (''reason'', Data (JStr (reason st))),
      (''setReason'', Opaque)]
     @ map (\<lambda>n. (n, Opaque)) module_names"

definition disabledExpr :: expr where
  "disabledExpr =
     Or (Or (Or (Not (Ident ''reason'')) (Ident ''loading'')) (Ident ''previewLoading''))
        (Not (Ident ''confirmed''))"

text \<open>
  Rendering the modal evaluates the attribute; the result is the Deactivate button with
  its \<open>disabled\<close> flag, or the error that aborts the render. \<open>onConfirm\<close> can be reached
  only through a rendered button that is not disabled.
\<close>

record deactivate_button =
  disabled :: bool

definition renderModal :: "deactivate_modal \<Rightarrow> error + deactivate_button" where
  "renderModal st =
     (case eval (modalScope st) disabledExpr of
        Inl err \<Rightarrow> Inl err
      | Inr b \<Rightarrow> Inr \<lparr>disabled = truthy_binding b\<rparr>)"

definition onConfirmReachable :: "deactivate_modal \<Rightarrow> bool" where
  "onConfirmReachable st = (case renderModal st of Inl err \<Rightarrow> False | Inr b \<Rightarrow> \<not> disabled b)"

text \<open>The modal as it opens for a department: no reason typed yet, the preview loading.\<close>

definition opened_modal :: deactivate_modal where
  "opened_modal =
     \<lparr>department = JObj [(''id'', JNum (Fin 4)), (''name'', JStr ''Sales''), (''status'', JStr ''Active'')],
      loading = False, preview = JNull, previewLoading = True, reason = []\<rparr>"

section \<open>The master-data context\<close>

text \<open>
  \<open>loadMasters\<close> of \<open>MasterDataProvider\<close>. A dropdown request is a \<open>GET\<close> of
  \<open>masters/dropdown/\<close> with its query parameters. The backend is a function from a
  request to the body of its response (\<open>response.data\<close>), \<open>None\<close> when the request
  fails and its promise rejects.
\<close>

record dropdown_request =
  url :: string
  params :: "(string \<times> string) list"

type_synonym backend = "dropdown_request \<Rightarrow> jsval option"

definition types :: "string list" where
  "types = [''ROLE'', ''DEPARTMENT'', ''PROJECT'', ''MEASUREMENT'']"

definition dropdownRequest :: "string \<Rightarrow> dropdown_request" where
  "dropdownRequest t = \<lparr>url = ''masters/dropdown/'', params = [(''type'', t), (''status'', ''Active'')]\<rparr>"

text \<open>
  The object built for one item of a response. Reading \<open>item.value\<close> of a null or
  undefined item raises a TypeError, which the \<open>catch\<close> of \<open>loadMasters\<close> receives.
\<close>

definition mapItem :: "jsval \<Rightarrow> error + jsval" where
  "mapItem item =
     (case getProp item ''value'' of
        Inl e \<Rightarrow> Inl e
      | Inr v \<Rightarrow>
          Inr (JObj
            [(''id'', v),
             (''name'', optProp item ''label''),
             (''code'', coalesce (optProp item ''code'') JNull),
             (''status'', coalesce (optProp item ''status'') (JStr ''Active''))]))"

fun mapItems :: "jsval list \<Rightarrow> error + jsval list" where
  "mapItems [] = Inr []"
| "mapItems (item # rest) =
     (case mapItem item of
        Inl e \<Rightarrow> Inl e
      | Inr obj \<Rightarrow> (case mapItems rest of Inl e \<Rightarrow> Inl e | Inr objs \<Rightarrow> Inr (obj # objs)))"

text \<open>
  \<open>responses[idx].data?.results ?? responses[idx].data ?? []\<close>, mapped when it is an
  array and replaced by the empty list otherwise.
\<close>

definition mapData :: "jsval \<Rightarrow> error + jsval list" where
  "mapData body =
     (let data = coalesce (coalesce (optProp body ''results'') body) (JArr [])
      in case data of JArr items \<Rightarrow> mapItems items | _ \<Rightarrow> Inr [])"

text \<open>The \<open>forEach\<close> over the types that fills \<open>newMasters\<close>, one key per type.\<close>

fun buildMasters :: "(string \<times> jsval) list \<Rightarrow> error + (string \<times> jsval list) list" where
  "buildMasters [] = Inr []"
| "buildMasters ((t, body) # rest) =
     (case mapData body of
        Inl e \<Rightarrow> Inl e
      | Inr objs \<Rightarrow>
          (case buildMasters rest of Inl e \<Rightarrow> Inl e | Inr m \<Rightarrow> Inr ((t, objs) # m)))"

text \<open>
  The state of the provider and what a run of \<open>loadMasters\<close> does, in order: the
  requests it issues and the setters it calls. \<open>those\<close> is \<open>Promise.all\<close>: all bodies,
  or nothing when one request failed.
\<close>

record masters_context =
  masters :: "(string \<times> jsval list) list"
  loadedOnce :: bool
  masters_loading :: bool

datatype effect =
    Get dropdown_request
  | SetLoading bool
  | SetMasters "(string \<times> jsval list) list"
  | SetLoadedOnce
  | LogError

definition loadMasters :: "backend \<Rightarrow> bool \<Rightarrow> masters_context \<Rightarrow> effect list" where
  "loadMasters backend force st =
     (if loadedOnce st \<and> \<not> force then []
      else
        [SetLoading True]
        @ map (\<lambda>t. Get (dropdownRequest t)) types
        @ (case those (map (\<lambda>t. backend (dropdownRequest t)) types) of
             None \<Rightarrow> [LogError]
           | Some bodies \<Rightarrow>
               (case buildMasters (zip types bodies) of
                  Inl e \<Rightarrow> [LogError]
                | Inr newMasters \<Rightarrow> [SetMasters newMasters, SetLoadedOnce]))
        @ [SetLoading False])"

fun apply_effect :: "masters_context \<Rightarrow> effect \<Rightarrow> masters_context" where
  "apply_effect st (Get r) = st"
| "apply_effect st (SetLoading b) = st\<lparr>masters_loading := b\<rparr>"
| "apply_effect st (SetMasters m) = st\<lparr>masters := m\<rparr>"
| "apply_effect st SetLoadedOnce = st\<lparr>loadedOnce := True\<rparr>"
| "apply_effect st LogError = st"

definition run_effects :: "effect list \<Rightarrow> masters_context \<Rightarrow> masters_context" where
  "run_effects evs st = foldl apply_effect st evs"

definition requestsOf :: "effect list \<Rightarrow> dropdown_request list" where
  "requestsOf evs = List.map_filter (\<lambda>e. case e of Get r \<Rightarrow> Some r | _ \<Rightarrow> None) evs"

definition mastersUpdates :: "effect list \<Rightarrow> (string \<times> jsval list) list list" where
  "mastersUpdates evs = List.map_filter (\<lambda>e. case e of SetMasters m \<Rightarrow> Some m | _ \<Rightarrow> None) evs"

text \<open>
  In the words of the specification: the items a response lists, and the object an item
  becomes (value as id, label as name, a missing code as null, a missing status as
  Active).
\<close>

definition itemsOf :: "jsval \<Rightarrow> jsval list" where
  "itemsOf body =
     (case coalesce (coalesce (optProp body ''results'') body) (JArr []) of
        JArr items \<Rightarrow> items
      | _ \<Rightarrow> [])"

definition mappedItem :: "jsval \<Rightarrow> jsval" where
  "mappedItem item =
     JObj
       [(''id'', optProp item ''value''),
        (''name'', optProp item ''label''),
        (''code'', if nullish (optProp item ''code'') then JNull else optProp item ''code''),
        (''status'',
           if nullish (optProp item ''status'') then JStr ''Active'' else optProp item ''status'')]"

text \<open>Sample backends and provider states.\<close>

definition role_body :: jsval where
  "role_body =
     JObj [(''results'',
       JArr [JObj [(''value'', JNum (Fin 1)), (''label'', JStr ''Admin''), (''code'', JStr ''ADM'')],
             JObj [(''value'', JNum (Fin 2)), (''label'', JStr ''Manager''),
                   (''status'', JStr ''Inactive'')]])]"

definition good_backend :: backend where
  "good_backend r = (if r = dropdownRequest ''ROLE'' then Some role_body else Some (JArr []))"

definition failing_backend :: backend where
  "failing_backend r = (if r = dropdownRequest ''PROJECT'' then None else Some role_body)"

definition initial_context :: masters_context where
  "initial_context =
     \<lparr>masters = [(''ROLE'', []), (''DEPARTMENT'', []), (''PROJECT'', []), (''MEASUREMENT'', [])],
      loadedOnce = False, masters_loading = False\<rparr>"

definition loaded_context :: masters_context where
  "loaded_context = initial_context\<lparr>loadedOnce := True\<rparr>"

text \<open>
  A load goes through when all four requests succeed and no response lists a null or
  undefined item; \<open>mappedMasters\<close> is then the new masters object, the mapped list of
  each type under its key.
\<close>

definition loadable :: "backend \<Rightarrow> bool" where
  "loadable backend =
     (\<forall>t \<in> set types.
        case backend (dropdownRequest t) of
          None \<Rightarrow> False
        | Some body \<Rightarrow> (\<forall>item \<in> set (itemsOf body). \<not> nullish item))"

definition mappedMasters :: "backend \<Rightarrow> (string \<times> jsval list) list" where
  "mappedMasters backend =
     map (\<lambda>t. (t, map mappedItem (itemsOf (the (backend (dropdownRequest t)))))) types"

text \<open>A backend whose answer for the roles lists a null item.\<close>

definition null_item_backend :: backend where
  "null_item_backend r =
     (if r = dropdownRequest ''ROLE'' then Some (JObj [(''results'', JArr [JNull])])
      else Some (JArr []))"

section \<open>Verified properties\<close>

text \<open>
  The lemmas and theorems below are about the definitions above. A theorem that settles
  a claim of the specification follows a text that names the claim and states it.
\<close>

subsection \<open>Properties of the string and number functions\<close>

lemma includes_js_iff: "includes_js s q \<longleftrightarrow> (\<exists>a b. s = a @ q @ b)"
proof (induction s)
  case Nil
  then show ?case by auto
next
  case (Cons c cs)
  show ?case
  proof
    assume "includes_js (c # cs) q"
    then consider "prefix q (c # cs)" | "includes_js cs q" by auto
    then show "\<exists>a b. c # cs = a @ q @ b"
    proof cases
      case 1
      then obtain b where "c # cs = q @ b" by (auto simp: prefix_def)
      then have "c # cs = [] @ q @ b" by simp
      then show ?thesis by blast
    next
      case 2
      with Cons.IH obtain a b where "cs = a @ q @ b" by auto
      then have "c # cs = (c # a) @ q @ b" by simp
      then show ?thesis by blast
    qed
  next
    assume "\<exists>a b. c # cs = a @ q @ b"
    then obtain a b where ab: "c # cs = a @ q @ b" by auto
    show "includes_js (c # cs) q"
    proof (cases a)
      case Nil
      with ab have "prefix q (c # cs)" by (simp add: prefix_def)
      then show ?thesis by simp
    next
      case (Cons x a')
      with ab have "cs = a' @ q @ b" by simp
      with Cons.IH have "includes_js cs q" by blast
      then show ?thesis by simp
    qed
  qed
qed

lemma less10: "(d::nat) < 10 \<Longrightarrow> d \<in> set [0,1,2,3,4,5,6,7,8,9]"
  by (simp add: numeral_eq_Suc less_Suc_eq)

lemma digit_char_nth: "d < 10 \<Longrightarrow> isDigit (''0123456789'' ! d)"
  by (drule less10) (auto simp: isDigit_def)

lemma digitVal_digits:
  "map digitVal ''0123456789'' = map Some [0, 1, 2, 3, 4, 5, 6, 7, 8, 9]"
  by (simp add: digitVal_def)

lemma digitVal_nth: "d < 10 \<Longrightarrow> digitVal (''0123456789'' ! d) = Some d"
proof -
  assume d: "d < 10"
  then have "digitVal (''0123456789'' ! d) = map digitVal ''0123456789'' ! d"
    by (subst nth_map) simp_all
  also have "\<dots> = map Some [0, 1, 2, 3, 4, 5, 6, 7, 8, 9] ! d"
    by (simp only: digitVal_digits)
  also from less10 [OF d] have "\<dots> = Some d" by auto
  finally show ?thesis .
qed

lemma natToString_digits: "list_all isDigit (natToString n)"
proof (induction n rule: natToString.induct)
  case (1 n)
  show ?case
  proof (cases "n < 10")
    case True
    then show ?thesis by (subst natToString.simps) (simp add: digit_char_nth)
  next
    case False
    with 1 have "list_all isDigit (natToString (n div 10))" by simp
    moreover have "isDigit (''0123456789'' ! (n mod 10))" by (rule digit_char_nth) simp
    ultimately show ?thesis using False by (subst natToString.simps) simp
  qed
qed

lemma natToString_nonempty: "natToString n \<noteq> []"
  by (subst natToString.simps) simp

lemma digitsValue_snoc:
  "digitsValue r (ds @ [c]) = r * digitsValue r ds + (case digitVal c of Some d \<Rightarrow> d | None \<Rightarrow> 0)"
  by (simp add: digitsValue_def)

lemma digitsValue_natToString: "digitsValue 10 (natToString n) = n"
proof (induction n rule: natToString.induct)
  case (1 n)
  show ?case
  proof (cases "n < 10")
    case True
    then show ?thesis
      by (subst natToString.simps) (simp add: digitsValue_def digitVal_nth)
  next
    case False
    with 1 have IH: "digitsValue 10 (natToString (n div 10)) = n div 10" by simp
    have "digitVal (''0123456789'' ! (n mod 10)) = Some (n mod 10)" by (rule digitVal_nth) simp
    with IH False show ?thesis
      by (subst natToString.simps) (simp add: digitsValue_snoc)
  qed
qed

lemma digitVal_zero: "digitVal (CHR ''0'') = Some 0"
  by (simp add: digitVal_def)

lemma digitsValue_Cons0: "digitsValue r (CHR ''0'' # ds) = digitsValue r ds"
  by (simp add: digitsValue_def digitVal_zero)

lemma digitsValue_replicate0: "digitsValue r (replicate k (CHR ''0'') @ ds) = digitsValue r ds"
  by (induction k) (simp_all add: digitsValue_Cons0)

lemma isDigit_not_space: "isDigit c \<Longrightarrow> \<not> isWhiteSpace c"
  by (auto simp: isDigit_def isWhiteSpace_def)

lemma trim_js_digits:
  assumes "list_all isDigit ds"
  shows "trim_js ds = ds"
proof (cases ds rule: rev_cases)
  case Nil
  then show ?thesis by (simp add: trim_js_def)
next
  case (snoc ys y)
  with assms have y: "\<not> isWhiteSpace y" by (simp add: isDigit_not_space)
  have "dropWhile isWhiteSpace ds = ds"
  proof (cases ds)
    case Nil
    then show ?thesis by simp
  next
    case (Cons x xs)
    with assms have "\<not> isWhiteSpace x" by (simp add: isDigit_not_space)
    with Cons show ?thesis by simp
  qed
  with snoc y show ?thesis by (simp add: trim_js_def)
qed

lemma radixOf_digit: "isDigit c \<Longrightarrow> radixOf c = None"
  by (auto simp: isDigit_def radixOf_def)

lemma StrUnsignedDecimalLiteral_digits:
  assumes "ds \<noteq> []" and "list_all isDigit ds"
  shows "StrUnsignedDecimalLiteral ds = Fin (of_nat (digitsValue 10 ds))"
proof -
  from assms obtain c u where cu: "ds = c # u" by (cases ds) auto
  with assms have "isDigit c" by simp
  then have "c \<noteq> CHR ''I''" by (auto simp: isDigit_def)
  with cu have ne: "ds \<noteq> ''Infinity''" by auto
  from assms have tw: "takeWhile isDigit ds = ds" "dropWhile isDigit ds = []"
    by (simp_all add: list_all_iff)
  show ?thesis
    using ne assms(1) by (simp add: StrUnsignedDecimalLiteral_def tw Let_def digitsValue_def)
qed

lemma StringToNumber_digits:
  assumes "ds \<noteq> []" and "list_all isDigit ds"
  shows "StringToNumber ds = Fin (of_nat (digitsValue 10 ds))"
proof -
  from assms obtain c u where cu: "ds = c # u" by (cases ds) auto
  with assms have c: "isDigit c" and u: "list_all isDigit u" by simp_all
  from c have cs: "c \<noteq> CHR ''+''" "c \<noteq> CHR ''-''" by (auto simp: isDigit_def)
  have rad: "(if c = CHR ''0'' \<and> u \<noteq> [] then radixOf (hd u) else None) = None"
  proof (cases u)
    case Nil
    then show ?thesis by simp
  next
    case (Cons x xs)
    with u have "isDigit x" by simp
    with Cons show ?thesis by (simp add: radixOf_digit)
  qed
  have "StringToNumber ds = StrUnsignedDecimalLiteral ds"
    unfolding StringToNumber_def trim_js_digits [OF assms(2)] Let_def
    using cs rad by (simp add: cu)
  with StrUnsignedDecimalLiteral_digits [OF assms] show ?thesis by simp
qed

lemma StringToNumber_natToString: "StringToNumber (natToString n) = Fin (of_nat n)"
  using StringToNumber_digits [OF natToString_nonempty natToString_digits, of n]
  by (simp add: digitsValue_natToString)

lemma isDigit_zero: "isDigit (CHR ''0'')"
  by (simp add: isDigit_def)

lemma padStart0_digits: "list_all isDigit ds \<Longrightarrow> list_all isDigit (padStart0 k ds)"
  by (auto simp: padStart0_def list_all_iff isDigit_zero)

lemma StringToNumber_padStart0: "StringToNumber (padStart0 k (natToString n)) = Fin (of_nat n)"
proof -
  have ne: "padStart0 k (natToString n) \<noteq> []" by (simp add: padStart0_def natToString_nonempty)
  have "StringToNumber (padStart0 k (natToString n))
      = Fin (of_nat (digitsValue 10 (padStart0 k (natToString n))))"
    by (rule StringToNumber_digits [OF ne padStart0_digits [OF natToString_digits]])
  then show ?thesis by (simp add: padStart0_def digitsValue_replicate0 digitsValue_natToString)
qed

lemma breakOn_week_none: "CHR ''-'' \<notin> set b \<Longrightarrow> breakOn ''-W'' b = None"
  by (induction b) auto

lemma breakOn_week_sep: "CHR ''-'' \<notin> set a \<Longrightarrow> breakOn ''-W'' (a @ ''-W'' @ b) = Some (a, b)"
  by (induction a) auto

lemma not_isDigit_dash: "\<not> isDigit (CHR ''-'')"
  by (simp add: isDigit_def)

lemma isDigit_not_dash: "list_all isDigit ds \<Longrightarrow> CHR ''-'' \<notin> set ds"
  using not_isDigit_dash by (auto simp: list_all_iff)

lemma split_js_week:
  assumes "list_all isDigit a" and "list_all isDigit b"
  shows "split_js ''-W'' (a @ ''-W'' @ b) = [a, b]"
proof -
  have 1: "breakOn ''-W'' b = None"
    by (rule breakOn_week_none [OF isDigit_not_dash [OF assms(2)]])
  have 2: "breakOn ''-W'' (a @ ''-W'' @ b) = Some (a, b)"
    by (rule breakOn_week_sep [OF isDigit_not_dash [OF assms(1)]])
  have "split_js ''-W'' b = [b]"
    by (subst split_js.simps) (simp only: 1 option.case list.simps if_False)
  then show ?thesis
    by (subst split_js.simps) (simp only: 2 option.case prod.case list.simps if_False)
qed

subsection \<open>Properties of rounding\<close>

lemma pow2_powi: "pow2 e = 2 powi e"
  by (simp add: pow2_def power_int_def inverse_eq_divide power_one_over)

lemma pow2_pos: "0 < pow2 e"
  by (simp add: pow2_def)

lemma pow2_mono: "i \<le> j \<Longrightarrow> pow2 i \<le> pow2 j"
  unfolding pow2_powi by (rule power_int_increasing) simp_all

lemma pow2_less_cancel: "pow2 i < pow2 j \<Longrightarrow> i < j"
  using pow2_mono [of j i] by (cases "i < j") auto

lemma pow2_diff: "pow2 (i - j) = pow2 i / pow2 j"
  unfolding pow2_powi by (simp add: power_int_diff)

text \<open>The exponent found by \<open>ilog2\<close> is not above the number.\<close>

lemma ilog2_lower:
  assumes "0 < a"
  shows "pow2 (ilog2 a) \<le> a"
proof -
  obtain p q where pq: "quotient_of a = (p, q)" by (cases "quotient_of a")
  then have q: "0 < q" by (rule quotient_of_denom_pos)
  from pq have a: "a = of_int p / of_int q" by (rule quotient_of_div)
  with assms q have p: "0 < p" by (simp add: zero_less_divide_iff)
  from bitlen_bounds [OF p] have pl: "2 ^ nat (bitlen p - 1) \<le> p" by simp
  from bitlen_bounds [OF q] have qu: "q < 2 ^ nat (bitlen q)" by simp
  from p have bp: "1 \<le> bitlen p" by (auto simp: bitlen_alt_def)
  have 1: "pow2 (bitlen p - 1) \<le> of_int p"
  proof -
    from pl have "(of_int (2 ^ nat (bitlen p - 1)) :: rat) \<le> of_int p" by (simp only: of_int_le_iff)
    with bp show ?thesis by (simp add: pow2_def)
  qed
  have 2: "of_int q < pow2 (bitlen q)"
  proof -
    from qu have "(of_int q :: rat) < of_int (2 ^ nat (bitlen q))" by (simp only: of_int_less_iff)
    then show ?thesis using bitlen_nonneg [of q] by (simp add: pow2_def)
  qed
  have "pow2 (bitlen p - bitlen q - 1) = pow2 (bitlen p - 1) / pow2 (bitlen q)"
    using pow2_diff [of "bitlen p - 1" "bitlen q"] by (simp add: algebra_simps)
  also have "\<dots> \<le> of_int p / pow2 (bitlen q)"
    using 1 pow2_pos [of "bitlen q"] by (simp add: divide_right_mono)
  also have "\<dots> \<le> of_int p / of_int q"
    using 2 p q by (simp add: frac_le)
  finally have low: "pow2 (bitlen p - bitlen q - 1) \<le> a" by (simp add: a)
  show ?thesis
    using low by (simp add: ilog2_def pq Let_def)
qed

lemma ilog2_less:
  assumes "0 < a" and "a < pow2 n"
  shows "ilog2 a < n"
  using ilog2_lower [OF assms(1)] assms(2) by (intro pow2_less_cancel) simp




text \<open>A natural number below \<open>2^53\<close> is a double: rounding returns it.\<close>

lemma roundHalfEven_of_int: "roundHalfEven (of_int k) = k"
  by (simp add: roundHalfEven_def)

lemma roundToDouble_nat:
  assumes "N < 2 ^ 53"
  shows "roundToDouble (of_nat N) = Fin (of_nat N)"
proof (cases "N = 0")
  case True
  then show ?thesis by (simp add: roundToDouble_def)
next
  case False
  then have pos: "0 < (of_nat N :: rat)" by simp
  define e where "e = max (ilog2 (of_nat N)) (- 1022) - 52"
  define m where "m = nat (- e)"
  have N: "of_nat N < (2 ^ 53 :: rat)"
    using assms by (metis of_nat_less_iff of_nat_numeral of_nat_power)
  then have "of_nat N < pow2 53" by (simp add: pow2_def)
  from ilog2_less [OF pos this] have e0: "e \<le> 0" by (simp add: e_def)
  then have pe: "pow2 e = 1 / 2 ^ m" by (cases "e = 0") (simp_all add: pow2_def m_def)
  have "of_nat N / pow2 e = (of_int (int N * 2 ^ m) :: rat)" by (simp add: pe)
  then have "roundHalfEven (of_nat N / pow2 e) = int N * 2 ^ m"
    by (simp only: roundHalfEven_of_int)
  then have r: "of_int (roundHalfEven (of_nat N / pow2 e)) * pow2 e = (of_nat N :: rat)"
    by (simp add: pe)
  have "(of_nat N :: rat) < pow2 1024"
  proof -
    note N
    also have "(2 ^ 53 :: rat) = pow2 53" by (simp add: pow2_def)
    also have "\<dots> \<le> pow2 1024" by (rule pow2_mono) simp
    finally show ?thesis .
  qed
  then show ?thesis
    using pos r by (simp add: roundToDouble_def Let_def e_def)
qed

text \<open>
  A number of magnitude at most \<open>2^(-1075)\<close>, half the least positive double, rounds
  to zero.
\<close>

lemma roundToDouble_tiny:
  assumes "0 < a" and "a \<le> pow2 (- 1075)"
  shows "roundToDouble a = Fin 0" and "roundToDouble (- a) = Fin 0"
proof -
  have "pow2 (- 1075) < pow2 (- 1022)"
    unfolding pow2_powi by (rule power_int_strict_increasing) simp_all
  with assms(2) have "a < pow2 (- 1022)" by simp
  from ilog2_less [OF assms(1) this] have e: "max (ilog2 a) (- 1022) - 52 = - 1074" by simp
  have "a / pow2 (- 1074) \<le> pow2 (- 1075) / pow2 (- 1074)"
    using assms(2) pow2_pos [of "- 1074"] by (simp add: divide_right_mono)
  also have "\<dots> = pow2 (- 1075 - (- 1074))" by (simp only: pow2_diff)
  also have "\<dots> = 1 / 2" by (simp add: pow2_def)
  finally have half: "a / pow2 (- 1074) \<le> 1 / 2" .
  have pos: "0 < a / pow2 (- 1074)" using assms(1) pow2_pos [of "- 1074"] by simp
  from half have "a / pow2 (- 1074) < 1" by (rule le_less_trans) simp
  with pos have fl: "\<lfloor>a / pow2 (- 1074)\<rfloor> = 0" by (simp only: floor_eq_iff) simp
  have rz: "roundHalfEven (a / pow2 (- 1074)) = 0"
    using half by (simp add: roundHalfEven_def fl)
  have big: "\<not> pow2 1024 \<le> 0" using pow2_pos [of 1024] by simp
  show "roundToDouble a = Fin 0"
    using assms(1) by (simp add: roundToDouble_def Let_def e rz big)
  show "roundToDouble (- a) = Fin 0"
    using assms(1) by (simp add: roundToDouble_def Let_def e rz big)
qed

text \<open>Numbers of the samples, and two texts that are numbers only after rounding.\<close>

lemma roundToDouble_samples:
  "roundToDouble 5 = Fin 5" "roundToDouble 7 = Fin 7" "roundToDouble 80 = Fin 80"
  "roundToDouble 90 = Fin 90" "roundToDouble 150 = Fin 150" "roundToDouble 170 = Fin 170"
  "roundToDouble 1600000000000 = Fin 1600000000000"
  "roundToDouble 1900000000000 = Fin 1900000000000"
  using roundToDouble_nat [of 5] roundToDouble_nat [of 7] roundToDouble_nat [of 80]
    roundToDouble_nat [of 90] roundToDouble_nat [of 150] roundToDouble_nat [of 170]
    roundToDouble_nat [of 1600000000000] roundToDouble_nat [of 1900000000000]
  by simp_all

lemma sn7: "StringToNumber ''7'' = Fin 7" by code_simp
lemma sn150: "StringToNumber ''150'' = Fin 150" by code_simp
lemma snabc: "StringToNumber ''abc'' = NaN" by code_simp


lemma ns7: "NumberString ''7'' = Fin 7"
  by (simp add: NumberString_def roundNumber_def sn7 roundToDouble_samples)



lemma ns150: "NumberString ''150'' = Fin 150"
  by (simp add: NumberString_def roundNumber_def sn150 roundToDouble_samples)

lemma nsabc: "NumberString ''abc'' = NaN"
  by (simp add: NumberString_def roundNumber_def snabc)

lemma ns_above_100: "NumberString ''100.00000000000000001'' = Fin 100"
  by code_simp

lemma sn_below_0: "StringToNumber ''-1e-400'' = Fin (- (1 / 10 ^ 400))"
  by code_simp

lemma ns_below_0: "NumberString ''-1e-400'' = Fin 0"
proof -
  have "(2 :: rat) ^ 1075 \<le> 10 ^ 400" by simp
  then have "(1 / 10 ^ 400 :: rat) \<le> pow2 (- 1075)"
    by (simp add: pow2_def frac_le)
  from roundToDouble_tiny(2) [OF _ this] show ?thesis
    by (simp add: NumberString_def roundNumber_def sn_below_0)
qed

subsection \<open>Properties of the weekly-evaluation form\<close>

subsubsection \<open>Week strings round-trip\<close>

text \<open>
  Claim C3. For every natural-number year \<open>y\<close> and every week number \<open>w\<close> from 1 to 99,
  parsing the formatted week value gives back the year \<open>y\<close> and the week \<open>w\<close>; and for
  every string that does not contain \<open>-W\<close> (the empty string included) \<open>parseWeek\<close>
  returns null for both the year and the week.
\<close>

theorem parseWeek_formatWeekValue_roundtrip:
  "(1 \<le> w \<and> w \<le> 99 \<longrightarrow>
      parseWeek (formatWeekValue y w) = \<lparr>year = JNum (Fin (of_nat y)), week = JNum (Fin (of_nat w))\<rparr>)
   \<and> ((\<nexists>a b. s = a @ ''-W'' @ b) \<longrightarrow> parseWeek s = \<lparr>year = JNull, week = JNull\<rparr>)"
proof
  have inc: "includes_js (formatWeekValue y w) ''-W''"
    unfolding includes_js_iff formatWeekValue_def by blast
  have ne: "formatWeekValue y w \<noteq> []" by (simp add: formatWeekValue_def)
  have sp: "split_js ''-W'' (formatWeekValue y w) = [natToString y, padStart0 2 (natToString w)]"
    unfolding formatWeekValue_def
    by (rule split_js_week [OF natToString_digits padStart0_digits [OF natToString_digits]])
  show "1 \<le> w \<and> w \<le> 99 \<longrightarrow>
      parseWeek (formatWeekValue y w) = \<lparr>year = JNum (Fin (of_nat y)), week = JNum (Fin (of_nat w))\<rparr>"
    using inc ne by (simp add: parseWeek_def sp StringToNumber_natToString StringToNumber_padStart0)
next
  show "(\<nexists>a b. s = a @ ''-W'' @ b) \<longrightarrow> parseWeek s = \<lparr>year = JNull, week = JNull\<rparr>"
    by (simp add: parseWeek_def includes_js_iff)
qed

theorem parseWeek_formatWeekValue_roundtrip_witness:
  "parseWeek (formatWeekValue 2025 7) = \<lparr>year = JNum (Fin 2025), week = JNum (Fin 7)\<rparr>
   \<and> formatWeekValue 2025 7 = ''2025-W07''
   \<and> parseWeek ''2025W07'' = \<lparr>year = JNull, week = JNull\<rparr>"
proof -
  have a: "\<nexists>a b. ''2025W07'' = a @ ''-W'' @ b"
    unfolding includes_js_iff [symmetric] by simp
  have f: "formatWeekValue 2025 7 = ''2025-W07''"
    by (simp add: formatWeekValue_def natToString.simps padStart0_def)
  from parseWeek_formatWeekValue_roundtrip [of 7 2025 "''2025W07''"] a f
  show ?thesis by simp
qed

subsubsection \<open>Typing a score\<close>

lemma array_get_set: "array_get (array_set xs i v) i = v"
  by (simp add: array_get_def array_set_def nth_append)

lemma array_get_spread: "array_get (spread xs) j = array_get xs j"
  by (simp add: array_get_def spread_def)

lemma array_get_set_other: "j \<noteq> i \<Longrightarrow> array_get (array_set xs i v) j = array_get xs j"
  by (auto simp: array_get_def array_set_def nth_append nth_Cons')

text \<open>
  Claim C1. For every row index \<open>i\<close> and every typed value \<open>v\<close>, \<open>handleScoreChange\<close>
  writes entry \<open>i\<close> of the scores exactly when \<open>v\<close> is empty, is \<open>0\<close>, or, leading
  zeros stripped, is a text whose number is between 0 and 100; the entry then holds the
  stripped text, every other entry reads as before and the modal is untouched. For any
  other value (not a number, negative, or above 100) the scores stay as they are and the
  validation modal opens with the message of the failed check; nothing else changes.
\<close>

theorem handleScoreChange_accepts_iff:
  "(v = [] \<or> v = ''0'' \<or> (\<exists>r. NumberString (normaliseScore v) = Fin r \<and> 0 \<le> r \<and> r \<le> 100)
      \<longrightarrow> handleScoreChange i v st
            = st\<lparr>scores := array_set (spread (scores st)) i (JStr (normaliseScore v))\<rparr>
          \<and> array_get (scores (handleScoreChange i v st)) i = JStr (normaliseScore v)
          \<and> (\<forall>j. j \<noteq> i \<longrightarrow>
                array_get (scores (handleScoreChange i v st)) j = array_get (scores st) j)
          \<and> validationModal (handleScoreChange i v st) = validationModal st)
   \<and> (\<not> (v = [] \<or> v = ''0'' \<or> (\<exists>r. NumberString (normaliseScore v) = Fin r \<and> 0 \<le> r \<and> r \<le> 100))
      \<longrightarrow> handleScoreChange i v st
            = st\<lparr>validationModal :=
                   \<lparr>modal_show = True,
                    modal_message =
                      (if (\<exists>r. NumberString (normaliseScore v) = Fin r \<and> 100 < r)
                          \<or> NumberString (normaliseScore v) = PosInf
                       then ''Score cannot exceed 100.''
                       else ''Please enter a valid number between 0 and 100.'')\<rparr>\<rparr>
          \<and> scores (handleScoreChange i v st) = scores st)"
proof (intro conjI impI)
  assume acc: "v = [] \<or> v = ''0'' \<or> (\<exists>r. NumberString (normaliseScore v) = Fin r \<and> 0 \<le> r \<and> r \<le> 100)"
  have eq: "handleScoreChange i v st
      = st\<lparr>scores := array_set (spread (scores st)) i (JStr (normaliseScore v))\<rparr>"
  proof -
    consider "v = []" | "v = ''0''"
      | r where "v \<noteq> []" "v \<noteq> ''0''" "NumberString (normaliseScore v) = Fin r" "0 \<le> r" "r \<le> 100"
      using acc by blast
    then show ?thesis
    proof cases
      case 1
      then show ?thesis by (simp add: handleScoreChange_def normaliseScore_def)
    next
      case 2
      then show ?thesis by (simp add: handleScoreChange_def normaliseScore_def)
    next
      case 3
      then show ?thesis by (simp add: handleScoreChange_def Let_def)
    qed
  qed
  show "handleScoreChange i v st
      = st\<lparr>scores := array_set (spread (scores st)) i (JStr (normaliseScore v))\<rparr>"
    by (rule eq)
  show "array_get (scores (handleScoreChange i v st)) i = JStr (normaliseScore v)"
    by (simp add: eq array_get_set)
  show "\<forall>j. j \<noteq> i \<longrightarrow>
          array_get (scores (handleScoreChange i v st)) j = array_get (scores st) j"
    by (simp add: eq array_get_set_other array_get_spread)
  show "validationModal (handleScoreChange i v st) = validationModal st"
    by (simp add: eq)
next
  assume rej: "\<not> (v = [] \<or> v = ''0'' \<or> (\<exists>r. NumberString (normaliseScore v) = Fin r \<and> 0 \<le> r \<and> r \<le> 100))"
  then have ne: "v \<noteq> []" "v \<noteq> ''0''" by auto
  from rej have out: "\<And>r. NumberString (normaliseScore v) = Fin r \<Longrightarrow> r < 0 \<or> 100 < r"
    by (auto simp: not_le)
  show eq: "handleScoreChange i v st
            = st\<lparr>validationModal :=
                   \<lparr>modal_show = True,
                    modal_message =
                      (if (\<exists>r. NumberString (normaliseScore v) = Fin r \<and> 100 < r)
                          \<or> NumberString (normaliseScore v) = PosInf
                       then ''Score cannot exceed 100.''
                       else ''Please enter a valid number between 0 and 100.'')\<rparr>\<rparr>"
    using ne out by (cases "NumberString (normaliseScore v)") (auto simp: handleScoreChange_def Let_def)
  show "scores (handleScoreChange i v st) = scores st"
    by (subst eq) simp
qed

theorem handleScoreChange_accepts_iff_witness:
  "scores (handleScoreChange 1 ''07'' sample_form) = [Some (JStr ''80''), Some (JStr ''7'')]
   \<and> scores (handleScoreChange 1 ''100.00000000000000001'' sample_form)
       = [Some (JStr ''80''), Some (JStr ''100.00000000000000001'')]
   \<and> scores (handleScoreChange 1 ''-1e-400'' sample_form)
       = [Some (JStr ''80''), Some (JStr ''-1e-400'')]
   \<and> scores (handleScoreChange 1 ''150'' sample_form) = scores sample_form
   \<and> modal_message (validationModal (handleScoreChange 1 ''150'' sample_form)) = ''Score cannot exceed 100.''
   \<and> modal_message (validationModal (handleScoreChange 1 ''abc'' sample_form))
       = ''Please enter a valid number between 0 and 100.''"
proof -
  have n7: "normaliseScore ''07'' = ''7''" by (simp add: normaliseScore_def stripLeadingZeros_def)
  have nl: "normaliseScore ''100.00000000000000001'' = ''100.00000000000000001''"
    by (simp add: normaliseScore_def)
  have nt: "normaliseScore ''-1e-400'' = ''-1e-400''" by (simp add: normaliseScore_def)
  have n150: "normaliseScore ''150'' = ''150''" by (simp add: normaliseScore_def)
  have nabc: "normaliseScore ''abc'' = ''abc''" by (simp add: normaliseScore_def)
  have a: "scores (handleScoreChange 1 ''07'' sample_form) = [Some (JStr ''80''), Some (JStr ''7'')]"
    using handleScoreChange_accepts_iff [of "''07''" 1 sample_form]
    by (simp add: n7 ns7 sample_form_def array_set_def spread_def)
  have b: "scores (handleScoreChange 1 ''100.00000000000000001'' sample_form)
       = [Some (JStr ''80''), Some (JStr ''100.00000000000000001'')]"
    using handleScoreChange_accepts_iff [of "''100.00000000000000001''" 1 sample_form]
    by (simp add: nl ns_above_100 sample_form_def array_set_def spread_def)
  have c: "scores (handleScoreChange 1 ''-1e-400'' sample_form)
       = [Some (JStr ''80''), Some (JStr ''-1e-400'')]"
    using handleScoreChange_accepts_iff [of "''-1e-400''" 1 sample_form]
    by (simp add: nt ns_below_0 sample_form_def array_set_def spread_def)
  have d: "scores (handleScoreChange 1 ''150'' sample_form) = scores sample_form
     \<and> modal_message (validationModal (handleScoreChange 1 ''150'' sample_form)) = ''Score cannot exceed 100.''"
    using handleScoreChange_accepts_iff [of "''150''" 1 sample_form]
    by (simp add: n150 ns150)
  have e: "modal_message (validationModal (handleScoreChange 1 ''abc'' sample_form))
       = ''Please enter a valid number between 0 and 100.''"
    using handleScoreChange_accepts_iff [of "''abc''" 1 sample_form]
    by (simp add: nabc nsabc)
  from a b c d e show ?thesis by simp
qed


subsubsection \<open>Submitting an evaluation\<close>

















text \<open>
  The stored role: the role of the stored user when that is truthy, else the item
  stored under \<open>role\<close>, else the empty text. Lowercasing fails when the role of the
  stored user is truthy and not a string.
\<close>

lemma getUserRole_cases:
  "getUserRole ls =
     (if truthy (optProp (stored_user ls) ''role'') then
        (case optProp (stored_user ls) ''role'' of
           JStr s \<Rightarrow> Inr (toLowerCase s)
         | _ \<Rightarrow> Inl TypeError)
      else (case stored_role ls of None \<Rightarrow> Inr [] | Some s \<Rightarrow> Inr (toLowerCase s)))"
  by (cases "stored_role ls")
    (auto simp: getUserRole_def or_js_def Let_def toLowerCase_def split: jsval.splits)






















subsubsection \<open>The message of a failed request\<close>

lemma truthy_object_iff: "truthy v \<and> typeof_js v = ''object'' \<longleftrightarrow> isObject v"
  by (cases v) (simp_all add: typeof_js_def isObject_def)

lemma first_key_lookup:
  "isObject errors \<Longrightarrow>
   getIndex errors (case Object_keys errors of [] \<Rightarrow> JUndefined | k # _ \<Rightarrow> JStr k)
     = firstFieldMessage errors"
proof (cases errors)
  case (JObj ps)
  then show ?thesis
    by (cases ps) (auto simp: getIndex_def Object_keys_def firstFieldMessage_def)
next
  case (JArr xs)
  show ?thesis
  proof (cases xs)
    case Nil
    with JArr show ?thesis by (simp add: getIndex_def Object_keys_def firstFieldMessage_def)
  next
    case (Cons x xs')
    have "[0 ..< length (x # xs')] = 0 # [1 ..< length (x # xs')]" by (simp add: upt_rec)
    with JArr Cons show ?thesis
      by (simp add: getIndex_def Object_keys_def firstFieldMessage_def)
  qed
qed (simp_all add: isObject_def)

lemma is_string_iff: "typeof_js v = ''string'' \<longleftrightarrow> (\<exists>s. v = JStr s)"
  by (cases v) (simp_all add: typeof_js_def)

text \<open>
  Claim C4. The message for the error modal is taken from the body of the response
  with fixed precedence: the message of the first field of \<open>errors\<close> when \<open>errors\<close> is
  an object (undefined when that object has no field); otherwise \<open>detail\<close> when present;
  otherwise \<open>message\<close> when present; otherwise the body itself when it is a string;
  otherwise the fixed fallback text. Present means truthy, as the source tests it.
\<close>

theorem extractBackendError_precedence:
  "extractBackendError err =
     (if isObject (optProp (responseData err) ''errors'')
        then firstFieldMessage (optProp (responseData err) ''errors'')
      else if truthy (optProp (responseData err) ''detail'')
        then optProp (responseData err) ''detail''
      else if truthy (optProp (responseData err) ''message'')
        then optProp (responseData err) ''message''
      else if (\<exists>s. responseData err = JStr s)
        then responseData err
      else JStr ''Unable to process your request. Please try again.'')"
proof (cases "isObject (optProp (responseData err) ''errors'')")
  case True
  with first_key_lookup [OF True] show ?thesis
    by (simp add: extractBackendError_def responseData_def Let_def truthy_object_iff)
next
  case False
  then show ?thesis
    by (simp add: extractBackendError_def responseData_def Let_def truthy_object_iff is_string_iff)
qed

theorem extractBackendError_precedence_witness:
  "extractBackendError
     (response_with (JObj [(''errors'', JObj [(''week_number'', JStr ''Already evaluated.'')]),
                           (''detail'', JStr ''Bad request'')]))
     = JStr ''Already evaluated.''
   \<and> extractBackendError
       (response_with (JObj [(''detail'', JStr ''Not found.''), (''message'', JStr ''m'')]))
     = JStr ''Not found.''
   \<and> extractBackendError (response_with (JObj [(''message'', JStr ''Try later'')]))
     = JStr ''Try later''
   \<and> extractBackendError (response_with (JStr ''Server Error'')) = JStr ''Server Error''
   \<and> extractBackendError (JObj []) = JStr ''Unable to process your request. Please try again.''"
proof -
  have a: "extractBackendError
     (response_with (JObj [(''errors'', JObj [(''week_number'', JStr ''Already evaluated.'')]),
                           (''detail'', JStr ''Bad request'')]))
     = JStr ''Already evaluated.''"
    by (subst extractBackendError_precedence)
      (simp add: response_with_def responseData_def optProp_def getProp_def isObject_def
        firstFieldMessage_def)
  have b: "extractBackendError
       (response_with (JObj [(''detail'', JStr ''Not found.''), (''message'', JStr ''m'')]))
     = JStr ''Not found.''"
    by (subst extractBackendError_precedence)
      (simp add: response_with_def responseData_def optProp_def getProp_def isObject_def)
  have c: "extractBackendError (response_with (JObj [(''message'', JStr ''Try later'')]))
     = JStr ''Try later''"
    by (subst extractBackendError_precedence)
      (simp add: response_with_def responseData_def optProp_def getProp_def isObject_def)
  have d: "extractBackendError (response_with (JStr ''Server Error'')) = JStr ''Server Error''"
    by (subst extractBackendError_precedence)
      (simp add: response_with_def responseData_def optProp_def getProp_def isObject_def)
  have e: "extractBackendError (JObj []) = JStr ''Unable to process your request. Please try again.''"
    by (subst extractBackendError_precedence)
      (simp add: responseData_def optProp_def getProp_def isObject_def)
  from a b c d e show ?thesis by simp
qed

subsection \<open>Properties of the routes\<close>

text \<open>
  Claim C6. For every stored role, the route \<open>/employee-lifecycle/history\<close> renders the
  \<open>EmployeeLifecycleHistory\<close> view exactly when a role is stored and lowercases to
  \<open>admin\<close>; for any other role, or none, it is a redirect to \<open>/dashboard\<close>.
\<close>

theorem lifecycleHistoryRoute_admin_only:
  "path lifecycleHistoryRoute = ''/employee-lifecycle/history''
   \<and> element lifecycleHistoryRoute ls =
       (if (\<exists>r. ls ''role'' = Some r \<and> toLowerCase r = ''admin'')
        then Render ''EmployeeLifecycleHistory''
        else Navigate ''/dashboard'')"
  by (cases "ls ''role''") (simp_all add: lifecycleHistoryRoute_def)

lemma lower_Admin: "toLowerCase ''ADMIN'' = ''admin''"
  by (simp add: toLowerCase_def toLowerCase_char_def upper_chars_def lower_chars_def)

lemma lower_Manager: "toLowerCase ''Manager'' = ''manager''"
  by (simp add: toLowerCase_def toLowerCase_char_def upper_chars_def lower_chars_def)

theorem lifecycleHistoryRoute_admin_only_witness:
  "element lifecycleHistoryRoute (\<lambda>k. if k = ''role'' then Some ''ADMIN'' else None)
     = Render ''EmployeeLifecycleHistory''
   \<and> element lifecycleHistoryRoute (\<lambda>k. if k = ''role'' then Some ''Manager'' else None)
     = Navigate ''/dashboard''
   \<and> element lifecycleHistoryRoute (\<lambda>k. None) = Navigate ''/dashboard''"
proof -
  have a: "element lifecycleHistoryRoute (\<lambda>k. if k = ''role'' then Some ''ADMIN'' else None)
     = Render ''EmployeeLifecycleHistory''"
    by (simp add: lifecycleHistoryRoute_admin_only lower_Admin)
  have b: "element lifecycleHistoryRoute (\<lambda>k. if k = ''role'' then Some ''Manager'' else None)
     = Navigate ''/dashboard''"
    by (simp add: lifecycleHistoryRoute_admin_only lower_Manager)
  have c: "element lifecycleHistoryRoute (\<lambda>k. None) = Navigate ''/dashboard''"
    by (simp add: lifecycleHistoryRoute_admin_only)
  from a b c show ?thesis by simp
qed














text \<open>
  The protected routes of \<open>App.js\<close> render \<open>AppContent\<close> only when \<open>isTokenValid\<close>
  holds. A token it accepts has an expiry time after now, never \<open>NaN\<close>: evaluated at
  the same time on a token with a payload piece, the index route keeps local storage
  and sends the user to the default route of the role.
\<close>

lemma indexElement_beneath_protected_route:
  assumes "isTokenValid rt ls" and "ls ''access_token'' = Some token"
    and "1 < length (split_js ''.'' token)"
  shows "indexElement rt ls = \<lparr>cleared = False, target = getDefaultRoute (ls ''role'')\<rparr>"
proof -
  from assms have ne: "token \<noteq> []" by (auto simp: isTokenValid_def)
  from assms ne obtain decoded where dec: "atob rt (split_js ''.'' token ! 1) = Some decoded"
    by (cases "atob rt (split_js ''.'' token ! 1)") (auto simp: isTokenValid_def Let_def)
  from assms ne dec obtain payload where payload: "JSON_parse rt decoded = Some payload"
    by (cases "JSON_parse rt decoded") (auto simp: isTokenValid_def Let_def)
  from assms ne dec payload obtain exp_claim where ex: "getProp payload ''exp'' = Inr exp_claim"
    by (cases "getProp payload ''exp''") (auto simp: isTokenValid_def Let_def)
  from assms ne dec payload ex
  have lt: "lt_js (Fin (Date_now rt)) (times_js (ToNumber rt exp_claim) 1000)"
    by (simp add: isTokenValid_def Let_def)
  then have "\<not> ge_js (Fin (Date_now rt)) (times_js (ToNumber rt exp_claim) 1000)"
    by (cases "times_js (ToNumber rt exp_claim) 1000") simp_all
  with assms(2, 3) ne dec payload ex show ?thesis
    by (simp add: indexElement_def tokenPayload_def Let_def)
qed


subsection \<open>Properties of the master-data module\<close>

lemma lookup_update: "lookup (AList.update k v obj) k' = (if k' = k then v else lookup obj k')"
  by (simp add: lookup_def update_conv')

text \<open>
  Claim C8. In the add/edit modal, choosing a value in the \<open>department_id\<close> select
  resets \<open>managers\<close> to the empty list, stores the chosen department and leaves every
  other field as it was; changing any other field, through a select or a text input,
  changes only that field.
\<close>

theorem changing_a_field_frame:
  "lookup (new_form (selectChange h ''department_id'' raw form)) ''managers'' = JArr []
   \<and> lookup (new_form (selectChange h ''department_id'' raw form)) ''department_id''
       = JNum (StringToNumber raw)
   \<and> (\<forall>k. k \<noteq> ''department_id'' \<and> k \<noteq> ''managers'' \<longrightarrow>
         lookup (new_form (selectChange h ''department_id'' raw form)) k = lookup form k)
   \<and> (fkey \<noteq> ''department_id'' \<longrightarrow>
         (\<forall>k. k \<noteq> fkey \<longrightarrow> lookup (new_form (selectChange h fkey raw form)) k = lookup form k))
   \<and> (\<forall>k. k \<noteq> fkey \<longrightarrow> lookup (inputChange fkey txt form) k = lookup form k)"
  by (simp add: selectChange_def inputChange_def Let_def lookup_update)

lemma sn3: "StringToNumber ''3'' = Fin 3" by code_simp

theorem changing_a_field_frame_witness:
  "lookup (new_form (selectChange True ''department_id'' ''3'' project_form)) ''managers'' = JArr []
   \<and> lookup (new_form (selectChange True ''department_id'' ''3'' project_form)) ''department_id''
       = JNum (Fin 3)
   \<and> lookup (new_form (selectChange True ''department_id'' ''3'' project_form)) ''name''
       = JStr ''Payroll''
   \<and> lookup (new_form (selectChange True ''managers'' ''3'' project_form)) ''department_id''
       = JNum (Fin 2)
   \<and> lookup (inputChange ''name'' ''Audit'' project_form) ''managers'' = JArr [JNum (Fin 7)]"
proof -
  have v: "lookup project_form ''name'' = JStr ''Payroll''"
    "lookup project_form ''department_id'' = JNum (Fin 2)"
    "lookup project_form ''managers'' = JArr [JNum (Fin 7)]"
    by (simp_all add: lookup_def project_form_def)
  from changing_a_field_frame [of True "''3''" project_form "''managers''" "''Audit''"]
  have a: "lookup (new_form (selectChange True ''department_id'' ''3'' project_form)) ''managers'' = JArr []
   \<and> lookup (new_form (selectChange True ''department_id'' ''3'' project_form)) ''department_id''
       = JNum (Fin 3)
   \<and> lookup (new_form (selectChange True ''department_id'' ''3'' project_form)) ''name''
       = JStr ''Payroll''
   \<and> lookup (new_form (selectChange True ''managers'' ''3'' project_form)) ''department_id''
       = JNum (Fin 2)"
    by (simp add: v sn3)
  from changing_a_field_frame [of True "''3''" project_form "''name''" "''Audit''"]
  have b: "lookup (inputChange ''name'' ''Audit'' project_form) ''managers'' = JArr [JNum (Fin 7)]"
    by (simp add: v)
  from a b show ?thesis by simp
qed

text \<open>
  Claim C9. With an empty search box the displayed rows are the loaded rows, in their
  order. With a query, they are exactly the loaded rows for which the text of at least
  one configured column contains the query, both taken in lower case, in the order of
  the loaded rows.
\<close>

theorem filtered_rows:
  "(search = [] \<longrightarrow> filtered rt search data columns = data)
   \<and> (search \<noteq> [] \<longrightarrow>
        filtered rt search data columns
          = filter
              (\<lambda>r. \<exists>c \<in> set columns. \<exists>a b. toLowerCase (cellText rt r c) = a @ toLowerCase search @ b)
              data)
   \<and> subseq (filtered rt search data columns) data"
  by (simp add: filtered_def Let_def list_ex_iff includes_js_iff)

lemma filtered_man:
  "filtered sample_runtime ''man'' role_rows role_columns
     = [[(''id'', JNum (Fin 2)), (''name'', JStr ''Manager''), (''status'', JStr ''Inactive'')]]"
  by code_simp

theorem filtered_rows_witness:
  "filtered sample_runtime [] role_rows role_columns = role_rows
   \<and> filter
       (\<lambda>r. \<exists>c \<in> set role_columns. \<exists>a b.
              toLowerCase (cellText sample_runtime r c) = a @ toLowerCase ''man'' @ b)
       role_rows
     = [[(''id'', JNum (Fin 2)), (''name'', JStr ''Manager''), (''status'', JStr ''Inactive'')]]
   \<and> subseq [[(''id'', JNum (Fin 2)), (''name'', JStr ''Manager''), (''status'', JStr ''Inactive'')]]
       role_rows"
proof -
  from filtered_rows [of "[]" sample_runtime role_rows role_columns]
  have a: "filtered sample_runtime [] role_rows role_columns = role_rows" by simp
  from filtered_rows [of "''man''" sample_runtime role_rows role_columns]
  have b: "filter
       (\<lambda>r. \<exists>c \<in> set role_columns. \<exists>a b.
              toLowerCase (cellText sample_runtime r c) = a @ toLowerCase ''man'' @ b)
       role_rows
     = [[(''id'', JNum (Fin 2)), (''name'', JStr ''Manager''), (''status'', JStr ''Inactive'')]]"
    and c: "subseq [[(''id'', JNum (Fin 2)), (''name'', JStr ''Manager''), (''status'', JStr ''Inactive'')]]
       role_rows"
    by (simp_all add: filtered_man)
  from a b c show ?thesis by simp
qed

subsubsection \<open>The department-deactivation modal\<close>

lemma confirmed_unbound: "map_of (modalScope st) ''confirmed'' = None"
  by (simp add: modalScope_def module_names_def)

lemma scope_values:
  "map_of (modalScope st) ''reason'' = Some (Data (JStr (reason st)))"
  "map_of (modalScope st) ''loading'' = Some (Data (JBool (loading st)))"
  "map_of (modalScope st) ''previewLoading'' = Some (Data (JBool (previewLoading st)))"
  by (simp_all add: modalScope_def)

lemma renderModal_cases:
  "renderModal st =
     (if reason st \<noteq> [] \<and> \<not> loading st \<and> \<not> previewLoading st then Inl ReferenceError
      else Inr \<lparr>disabled = True\<rparr>)"
  by (simp add: renderModal_def disabledExpr_def scope_values confirmed_unbound truthy_binding_def)

text \<open>
  Claim C10, as amended. The identifier \<open>confirmed\<close> is not bound in the scope of the
  modal. Rendering fails with a \<open>ReferenceError\<close> exactly when a reason has been typed
  and neither \<open>loading\<close> nor \<open>previewLoading\<close> is set; in every other state the modal
  renders with the Deactivate button disabled. So \<open>onConfirm\<close> cannot be reached through
  the modal.
\<close>

theorem deactivate_button_never_enabled:
  "map_of (modalScope st) ''confirmed'' = None
   \<and> (renderModal st = Inl ReferenceError
        \<longleftrightarrow> reason st \<noteq> [] \<and> \<not> loading st \<and> \<not> previewLoading st)
   \<and> (renderModal st \<noteq> Inl ReferenceError \<longrightarrow> renderModal st = Inr \<lparr>disabled = True\<rparr>)
   \<and> \<not> onConfirmReachable st"
  by (simp add: confirmed_unbound renderModal_cases onConfirmReachable_def)

theorem deactivate_button_never_enabled_witness:
  "renderModal opened_modal = Inr \<lparr>disabled = True\<rparr>
   \<and> renderModal (opened_modal\<lparr>previewLoading := False, reason := ''merged''\<rparr>) = Inl ReferenceError
   \<and> \<not> onConfirmReachable (opened_modal\<lparr>previewLoading := False, reason := ''merged''\<rparr>)"
proof -
  from deactivate_button_never_enabled [of opened_modal]
  have a: "renderModal opened_modal = Inr \<lparr>disabled = True\<rparr>"
    by (simp add: opened_modal_def)
  from deactivate_button_never_enabled [of "opened_modal\<lparr>previewLoading := False, reason := ''merged''\<rparr>"]
  have b: "renderModal (opened_modal\<lparr>previewLoading := False, reason := ''merged''\<rparr>) = Inl ReferenceError
   \<and> \<not> onConfirmReachable (opened_modal\<lparr>previewLoading := False, reason := ''merged''\<rparr>)"
    by (simp add: opened_modal_def)
  from a b show ?thesis by simp
qed

text \<open>
  The claim as first stated says that rendering the modal always fails. When the modal
  opens, no reason is typed: \<open>!reason\<close> is true, the rest of the expression is not
  evaluated, and the modal renders.
\<close>

theorem renderModal_opened_counterexample:
  "renderModal opened_modal = Inr \<lparr>disabled = True\<rparr>"
  by (simp add: renderModal_cases opened_modal_def)

subsection \<open>Properties of the master-data context\<close>

lemma mapItem_ok: "\<not> nullish item \<Longrightarrow> mapItem item = Inr (mappedItem item)"
  by (cases item) (simp_all add: mapItem_def mappedItem_def getProp_def optProp_def coalesce_def nullish_def)

lemma mapItem_fail: "nullish item \<Longrightarrow> mapItem item = Inl TypeError"
  by (auto simp: mapItem_def getProp_def nullish_def)

lemma mapItems_ok: "\<forall>item \<in> set items. \<not> nullish item \<Longrightarrow> mapItems items = Inr (map mappedItem items)"
  by (induction items) (simp_all add: mapItem_ok)

lemma mapItems_fail: "\<exists>item \<in> set items. nullish item \<Longrightarrow> mapItems items = Inl TypeError"
proof (induction items)
  case Nil
  then show ?case by simp
next
  case (Cons item items)
  show ?case
  proof (cases "nullish item")
    case True
    then show ?thesis by (simp add: mapItem_fail)
  next
    case False
    with Cons.prems have "\<exists>item \<in> set items. nullish item" by simp
    from Cons.IH [OF this] False show ?thesis by (simp add: mapItem_ok)
  qed
qed

lemma mapData_ok:
  "\<forall>item \<in> set (itemsOf body). \<not> nullish item \<Longrightarrow> mapData body = Inr (map mappedItem (itemsOf body))"
  unfolding mapData_def itemsOf_def Let_def
  by (cases "coalesce (coalesce (optProp body ''results'') body) (JArr [])") (simp_all add: mapItems_ok)

lemma mapData_fail:
  "\<exists>item \<in> set (itemsOf body). nullish item \<Longrightarrow> mapData body = Inl TypeError"
  unfolding mapData_def itemsOf_def Let_def
  by (cases "coalesce (coalesce (optProp body ''results'') body) (JArr [])") (simp_all add: mapItems_fail)

lemma buildMasters_ok:
  "\<forall>(t, body) \<in> set tbs. \<forall>item \<in> set (itemsOf body). \<not> nullish item \<Longrightarrow>
   buildMasters tbs = Inr (map (\<lambda>(t, body). (t, map mappedItem (itemsOf body))) tbs)"
proof (induction tbs)
  case Nil
  then show ?case by simp
next
  case (Cons tb tbs)
  obtain t body where tb: "tb = (t, body)" by (cases tb)
  from Cons.prems tb have "\<forall>item \<in> set (itemsOf body). \<not> nullish item" by simp
  then have md: "mapData body = Inr (map mappedItem (itemsOf body))" by (rule mapData_ok)
  from Cons.prems have "\<forall>(t, body) \<in> set tbs. \<forall>item \<in> set (itemsOf body). \<not> nullish item" by simp
  from Cons.IH [OF this] md tb show ?case by simp
qed

lemma buildMasters_fail:
  "\<exists>(t, body) \<in> set tbs. \<exists>item \<in> set (itemsOf body). nullish item \<Longrightarrow>
   buildMasters tbs = Inl TypeError"
proof (induction tbs)
  case Nil
  then show ?case by simp
next
  case (Cons tb tbs)
  obtain t body where tb: "tb = (t, body)" by (cases tb)
  show ?case
  proof (cases "\<exists>item \<in> set (itemsOf body). nullish item")
    case True
    then have "mapData body = Inl TypeError" by (rule mapData_fail)
    with tb show ?thesis by simp
  next
    case False
    then have md: "mapData body = Inr (map mappedItem (itemsOf body))" by (simp add: mapData_ok)
    from False Cons.prems tb
    have "\<exists>(t, body) \<in> set tbs. \<exists>item \<in> set (itemsOf body). nullish item" by auto
    from Cons.IH [OF this] md tb show ?thesis by simp
  qed
qed

lemma requestsOf_loadMasters:
  "\<not> loadedOnce st \<or> force \<Longrightarrow>
   requestsOf (loadMasters backend force st) = map dropdownRequest types"
  by (auto simp: requestsOf_def loadMasters_def types_def map_filter_simps
      split: option.splits sum.splits)

lemma those_map_Some:
  "\<forall>x \<in> set xs. f x \<noteq> None \<Longrightarrow> those (map f xs) = Some (map (\<lambda>x. the (f x)) xs)"
  by (induction xs) auto

lemma those_map_None: "\<exists>x \<in> set xs. f x = None \<Longrightarrow> those (map f xs) = None"
  by (induction xs) (auto split: option.splits)

lemma zip_map_same: "zip xs (map f xs) = map (\<lambda>x. (x, f x)) xs"
  by (induction xs) simp_all

lemma loadable_iff:
  "loadable backend \<longleftrightarrow>
     (\<forall>t \<in> set types. \<exists>body. backend (dropdownRequest t) = Some body
         \<and> (\<forall>item \<in> set (itemsOf body). \<not> nullish item))"
  by (auto simp: loadable_def split: option.splits)

lemma loadMasters_success:
  assumes "\<not> loadedOnce st \<or> force" and ok: "loadable backend"
  shows "loadMasters backend force st =
     [SetLoading True] @ map (\<lambda>t. Get (dropdownRequest t)) types
     @ [SetMasters (mappedMasters backend), SetLoadedOnce, SetLoading False]"
proof -
  note ok' = ok [unfolded loadable_iff]
  from ok' have "\<forall>t \<in> set types. backend (dropdownRequest t) \<noteq> None" by auto
  then have th: "those (map (\<lambda>t. backend (dropdownRequest t)) types)
      = Some (map (\<lambda>t. the (backend (dropdownRequest t))) types)"
    by (rule those_map_Some)
  have "\<forall>(t, body) \<in> set (zip types (map (\<lambda>t. the (backend (dropdownRequest t))) types)).
          \<forall>item \<in> set (itemsOf body). \<not> nullish item"
    using ok' by (auto simp: zip_map_same)
  from buildMasters_ok [OF this]
  have bm: "buildMasters (zip types (map (\<lambda>t. the (backend (dropdownRequest t))) types))
      = Inr (mappedMasters backend)"
    by (simp add: zip_map_same comp_def mappedMasters_def)
  from assms(1) show ?thesis by (auto simp: loadMasters_def th bm)
qed

lemma loadMasters_failure:
  assumes "\<not> loadedOnce st \<or> force" and bad: "\<not> loadable backend"
  shows "loadMasters backend force st =
     [SetLoading True] @ map (\<lambda>t. Get (dropdownRequest t)) types @ [LogError, SetLoading False]"
proof (cases "\<exists>t \<in> set types. backend (dropdownRequest t) = None")
  case True
  then have "those (map (\<lambda>t. backend (dropdownRequest t)) types) = None"
    by (rule those_map_None)
  with assms(1) show ?thesis by (auto simp: loadMasters_def)
next
  case False
  then have some: "\<forall>t \<in> set types. backend (dropdownRequest t) \<noteq> None" by simp
  then have th: "those (map (\<lambda>t. backend (dropdownRequest t)) types)
      = Some (map (\<lambda>t. the (backend (dropdownRequest t))) types)"
    by (rule those_map_Some)
  from bad some obtain t where t: "t \<in> set types"
    and "\<exists>item \<in> set (itemsOf (the (backend (dropdownRequest t)))). nullish item"
    by (auto simp: loadable_iff)
  then have "\<exists>(t, body) \<in> set (zip types (map (\<lambda>t. the (backend (dropdownRequest t))) types)).
          \<exists>item \<in> set (itemsOf body). nullish item"
    by (auto simp: zip_map_same)
  then have bm: "buildMasters (zip types (map (\<lambda>t. the (backend (dropdownRequest t))) types))
      = Inl TypeError"
    by (rule buildMasters_fail)
  from assms(1) show ?thesis by (auto simp: loadMasters_def th bm)
qed

lemma run_Get: "foldl apply_effect st (map (\<lambda>t. Get (dropdownRequest t)) ts) = st"
  by (induction ts) simp_all

lemma mastersUpdates_Get: "mastersUpdates (map (\<lambda>t. Get (dropdownRequest t)) ts @ evs) = mastersUpdates evs"
  by (induction ts) (simp_all add: mastersUpdates_def map_filter_simps)

lemma mastersUpdates_append: "mastersUpdates (xs @ ys) = mastersUpdates xs @ mastersUpdates ys"
  by (induction xs) (simp_all add: mastersUpdates_def map_filter_simps split: option.splits)

lemma mastersUpdates_one:
  "mastersUpdates [Get r] = []" "mastersUpdates [SetLoading b] = []"
  "mastersUpdates [SetMasters m] = [m]" "mastersUpdates [SetLoadedOnce] = []"
  "mastersUpdates [LogError] = []"
  by (simp_all add: mastersUpdates_def map_filter_simps)

lemma run_effects_snoc: "run_effects (evs @ [e]) st = apply_effect (run_effects evs st) e"
  by (simp add: run_effects_def)

text \<open>The masters after a run of effects: the last update, or the masters before it.\<close>

lemma masters_run_effects:
  "masters (run_effects evs st) = (if mastersUpdates evs = [] then masters st else last (mastersUpdates evs))"
proof (induction evs arbitrary: st rule: rev_induct)
  case Nil
  then show ?case by (simp add: run_effects_def mastersUpdates_def map_filter_simps)
next
  case (snoc e evs)
  show ?case
    by (cases e) (simp_all add: run_effects_snoc snoc.IH mastersUpdates_append mastersUpdates_one)
qed

lemma mastersUpdates_loadMasters:
  "mastersUpdates (loadMasters backend force st)
     = (if (\<not> loadedOnce st \<or> force) \<and> loadable backend then [mappedMasters backend] else [])"
proof (cases "\<not> loadedOnce st \<or> force")
  case False
  then show ?thesis by (simp add: loadMasters_def mastersUpdates_def map_filter_simps)
next
  case True
  show ?thesis
  proof (cases "loadable backend")
    case ok: True
    show ?thesis
      unfolding loadMasters_success [OF True ok]
      using True ok
      by (simp add: mastersUpdates_def map_filter_simps mastersUpdates_Get [unfolded mastersUpdates_def])
  next
    case bad: False
    show ?thesis
      unfolding loadMasters_failure [OF True bad]
      using True bad
      by (simp add: mastersUpdates_def map_filter_simps mastersUpdates_Get [unfolded mastersUpdates_def])
  qed
qed

text \<open>
  At every point of a run, the masters are those from before the run or the complete
  new masters.
\<close>

lemma loadMasters_never_partial:
  assumes "prefix evs (loadMasters backend force st)"
  shows "masters (run_effects evs st) = masters st
         \<or> masters (run_effects evs st) = mappedMasters backend"
proof -
  from assms obtain rest where "loadMasters backend force st = evs @ rest"
    by (auto simp: prefix_def)
  then have "mastersUpdates evs @ mastersUpdates rest = mastersUpdates (loadMasters backend force st)"
    by (simp add: mastersUpdates_append)
  then have "mastersUpdates evs @ mastersUpdates rest = [] 
             \<or> mastersUpdates evs @ mastersUpdates rest = [mappedMasters backend]"
    by (simp add: mastersUpdates_loadMasters)
  then have "mastersUpdates evs = [] \<or> mastersUpdates evs = [mappedMasters backend]"
    by (auto simp: append_eq_Cons_conv)
  then show ?thesis by (auto simp: masters_run_effects)
qed

text \<open>
  Claim C5, as amended. When the loaded-once flag is unset or a reload is forced,
  \<open>loadMasters\<close> issues exactly four dropdown requests, for \<open>ROLE\<close>, \<open>DEPARTMENT\<close>,
  \<open>PROJECT\<close> and \<open>MEASUREMENT\<close>, each with status \<open>Active\<close>. When all four succeed and no
  response lists a null or undefined item, it commits the masters in one update holding
  the four mapped lists (value as id, label as name, a missing code as null, a missing
  status as \<open>Active\<close>) and sets the flag. When any of the four fails, or a response lists
  a null or undefined item, it commits nothing: the masters and the flag are left as
  they were. When the flag is set and no reload is forced, it issues no request and
  changes nothing. At no point of a run are the masters anything but the old ones or
  the complete new ones.
\<close>

theorem loadMasters_all_or_nothing:
  "(\<not> loadedOnce st \<or> force \<longrightarrow>
      requestsOf (loadMasters backend force st)
        = [\<lparr>url = ''masters/dropdown/'', params = [(''type'', ''ROLE''), (''status'', ''Active'')]\<rparr>,
           \<lparr>url = ''masters/dropdown/'', params = [(''type'', ''DEPARTMENT''), (''status'', ''Active'')]\<rparr>,
           \<lparr>url = ''masters/dropdown/'', params = [(''type'', ''PROJECT''), (''status'', ''Active'')]\<rparr>,
           \<lparr>url = ''masters/dropdown/'', params = [(''type'', ''MEASUREMENT''), (''status'', ''Active'')]\<rparr>]
      \<and> ((\<forall>t \<in> set types. \<exists>body. backend (dropdownRequest t) = Some body
               \<and> (\<forall>item \<in> set (itemsOf body). \<not> nullish item)) \<longrightarrow>
            loadMasters backend force st
              = [SetLoading True] @ map (\<lambda>t. Get (dropdownRequest t)) types
                @ [SetMasters
                     (map (\<lambda>t. (t, map mappedItem (itemsOf (the (backend (dropdownRequest t)))))) types),
                   SetLoadedOnce, SetLoading False]
            \<and> mastersUpdates (loadMasters backend force st)
              = [map (\<lambda>t. (t, map mappedItem (itemsOf (the (backend (dropdownRequest t)))))) types]
            \<and> run_effects (loadMasters backend force st) st
              = st\<lparr>masters :=
                     map (\<lambda>t. (t, map mappedItem (itemsOf (the (backend (dropdownRequest t)))))) types,
                   loadedOnce := True, masters_loading := False\<rparr>)
      \<and> (\<not> (\<forall>t \<in> set types. \<exists>body. backend (dropdownRequest t) = Some body
               \<and> (\<forall>item \<in> set (itemsOf body). \<not> nullish item)) \<longrightarrow>
            loadMasters backend force st
              = [SetLoading True] @ map (\<lambda>t. Get (dropdownRequest t)) types
                @ [LogError, SetLoading False]
            \<and> mastersUpdates (loadMasters backend force st) = []
            \<and> masters (run_effects (loadMasters backend force st) st) = masters st
            \<and> loadedOnce (run_effects (loadMasters backend force st) st) = loadedOnce st))
   \<and> (loadedOnce st \<and> \<not> force \<longrightarrow>
        loadMasters backend force st = [] \<and> run_effects (loadMasters backend force st) st = st)
   \<and> (\<forall>evs. prefix evs (loadMasters backend force st) \<longrightarrow>
        masters (run_effects evs st) = masters st
        \<or> masters (run_effects evs st)
            = map (\<lambda>t. (t, map mappedItem (itemsOf (the (backend (dropdownRequest t)))))) types)"
proof (intro conjI impI allI)
  assume g: "\<not> loadedOnce st \<or> force"
  from requestsOf_loadMasters [OF g]
  show "requestsOf (loadMasters backend force st)
        = [\<lparr>url = ''masters/dropdown/'', params = [(''type'', ''ROLE''), (''status'', ''Active'')]\<rparr>,
           \<lparr>url = ''masters/dropdown/'', params = [(''type'', ''DEPARTMENT''), (''status'', ''Active'')]\<rparr>,
           \<lparr>url = ''masters/dropdown/'', params = [(''type'', ''PROJECT''), (''status'', ''Active'')]\<rparr>,
           \<lparr>url = ''masters/dropdown/'', params = [(''type'', ''MEASUREMENT''), (''status'', ''Active'')]\<rparr>]"
    by (simp add: types_def dropdownRequest_def)
next
  assume g: "\<not> loadedOnce st \<or> force"
    and "\<forall>t \<in> set types. \<exists>body. backend (dropdownRequest t) = Some body
               \<and> (\<forall>item \<in> set (itemsOf body). \<not> nullish item)"
  then have ok: "loadable backend" by (simp add: loadable_iff)
  note eq = loadMasters_success [OF g ok, unfolded mappedMasters_def]
  show "loadMasters backend force st
              = [SetLoading True] @ map (\<lambda>t. Get (dropdownRequest t)) types
                @ [SetMasters
                     (map (\<lambda>t. (t, map mappedItem (itemsOf (the (backend (dropdownRequest t)))))) types),
                   SetLoadedOnce, SetLoading False]"
    by (rule eq)
  show "mastersUpdates (loadMasters backend force st)
              = [map (\<lambda>t. (t, map mappedItem (itemsOf (the (backend (dropdownRequest t)))))) types]"
    using g ok by (simp add: mastersUpdates_loadMasters mappedMasters_def)
  show "run_effects (loadMasters backend force st) st
              = st\<lparr>masters :=
                     map (\<lambda>t. (t, map mappedItem (itemsOf (the (backend (dropdownRequest t)))))) types,
                   loadedOnce := True, masters_loading := False\<rparr>"
    unfolding eq by (simp add: run_effects_def run_Get)
next
  assume g: "\<not> loadedOnce st \<or> force"
    and "\<not> (\<forall>t \<in> set types. \<exists>body. backend (dropdownRequest t) = Some body
               \<and> (\<forall>item \<in> set (itemsOf body). \<not> nullish item))"
  then have bad: "\<not> loadable backend" by (simp add: loadable_iff)
  note eq = loadMasters_failure [OF g bad]
  show "loadMasters backend force st
              = [SetLoading True] @ map (\<lambda>t. Get (dropdownRequest t)) types
                @ [LogError, SetLoading False]"
    by (rule eq)
  show "mastersUpdates (loadMasters backend force st) = []"
    using bad by (simp add: mastersUpdates_loadMasters)
  show "masters (run_effects (loadMasters backend force st) st) = masters st"
    unfolding eq by (simp add: run_effects_def run_Get)
  show "loadedOnce (run_effects (loadMasters backend force st) st) = loadedOnce st"
    unfolding eq by (simp add: run_effects_def run_Get)
next
  assume "loadedOnce st \<and> \<not> force"
  then show "loadMasters backend force st = []" by (simp add: loadMasters_def)
next
  assume "loadedOnce st \<and> \<not> force"
  then show "run_effects (loadMasters backend force st) st = st"
    by (simp add: loadMasters_def run_effects_def)
next
  fix evs
  assume "prefix evs (loadMasters backend force st)"
  from loadMasters_never_partial [OF this]
  show "masters (run_effects evs st) = masters st
        \<or> masters (run_effects evs st)
            = map (\<lambda>t. (t, map mappedItem (itemsOf (the (backend (dropdownRequest t)))))) types"
    by (simp add: mappedMasters_def)
qed

lemma good_backend_bodies:
  "good_backend (dropdownRequest ''ROLE'') = Some role_body"
  "good_backend (dropdownRequest ''DEPARTMENT'') = Some (JArr [])"
  "good_backend (dropdownRequest ''PROJECT'') = Some (JArr [])"
  "good_backend (dropdownRequest ''MEASUREMENT'') = Some (JArr [])"
  by (simp_all add: good_backend_def dropdownRequest_def)

lemma null_item_backend_bodies:
  "null_item_backend (dropdownRequest ''ROLE'') = Some (JObj [(''results'', JArr [JNull])])"
  "null_item_backend (dropdownRequest ''DEPARTMENT'') = Some (JArr [])"
  "null_item_backend (dropdownRequest ''PROJECT'') = Some (JArr [])"
  "null_item_backend (dropdownRequest ''MEASUREMENT'') = Some (JArr [])"
  by (simp_all add: null_item_backend_def dropdownRequest_def)

lemma sample_items:
  "itemsOf role_body =
     [JObj [(''value'', JNum (Fin 1)), (''label'', JStr ''Admin''), (''code'', JStr ''ADM'')],
      JObj [(''value'', JNum (Fin 2)), (''label'', JStr ''Manager''), (''status'', JStr ''Inactive'')]]"
  "itemsOf (JArr []) = []"
  "itemsOf (JObj [(''results'', JArr [JNull])]) = [JNull]"
  by (simp_all add: itemsOf_def role_body_def optProp_def getProp_def coalesce_def nullish_def)

lemma sample_mapped:
  "mappedItem (JObj [(''value'', JNum (Fin 1)), (''label'', JStr ''Admin''), (''code'', JStr ''ADM'')])
     = JObj [(''id'', JNum (Fin 1)), (''name'', JStr ''Admin''), (''code'', JStr ''ADM''),
             (''status'', JStr ''Active'')]"
  "mappedItem (JObj [(''value'', JNum (Fin 2)), (''label'', JStr ''Manager''),
                     (''status'', JStr ''Inactive'')])
     = JObj [(''id'', JNum (Fin 2)), (''name'', JStr ''Manager''), (''code'', JNull),
             (''status'', JStr ''Inactive'')]"
  by (simp_all add: mappedItem_def optProp_def getProp_def nullish_def)

lemma null_item_not_loadable: "\<not> loadable null_item_backend"
  by (simp add: loadable_def types_def null_item_backend_bodies sample_items nullish_def)

theorem loadMasters_all_or_nothing_witness:
  "length (requestsOf (loadMasters good_backend False initial_context)) = 4
   \<and> masters (run_effects (loadMasters good_backend False initial_context) initial_context)
       = [(''ROLE'',
            [JObj [(''id'', JNum (Fin 1)), (''name'', JStr ''Admin''), (''code'', JStr ''ADM''),
                   (''status'', JStr ''Active'')],
             JObj [(''id'', JNum (Fin 2)), (''name'', JStr ''Manager''), (''code'', JNull),
                   (''status'', JStr ''Inactive'')]]),
          (''DEPARTMENT'', []), (''PROJECT'', []), (''MEASUREMENT'', [])]
   \<and> loadedOnce (run_effects (loadMasters good_backend False initial_context) initial_context)
   \<and> masters (run_effects (loadMasters failing_backend True loaded_context) loaded_context)
       = masters loaded_context
   \<and> masters (run_effects (loadMasters null_item_backend False initial_context) initial_context)
       = masters initial_context
   \<and> \<not> loadedOnce (run_effects (loadMasters null_item_backend False initial_context) initial_context)
   \<and> loadMasters good_backend False loaded_context = []"
proof -
  have fresh: "\<not> loadedOnce initial_context \<or> False" by (simp add: initial_context_def)
  have ok: "\<forall>t \<in> set types. \<exists>body. good_backend (dropdownRequest t) = Some body
               \<and> (\<forall>item \<in> set (itemsOf body). \<not> nullish item)"
    by (simp add: types_def good_backend_bodies sample_items nullish_def)
  have bad: "\<not> (\<forall>t \<in> set types. \<exists>body. failing_backend (dropdownRequest t) = Some body
               \<and> (\<forall>item \<in> set (itemsOf body). \<not> nullish item))"
    by (simp add: types_def failing_backend_def)
  have nul: "\<not> (\<forall>t \<in> set types. \<exists>body. null_item_backend (dropdownRequest t) = Some body
               \<and> (\<forall>item \<in> set (itemsOf body). \<not> nullish item))"
    using null_item_not_loadable by (simp add: loadable_iff)
  have loaded: "loadedOnce loaded_context \<and> \<not> False"
    by (simp add: loaded_context_def initial_context_def)
  note good = loadMasters_all_or_nothing [of initial_context False good_backend,
      THEN conjunct1, THEN mp, OF fresh]
  from good [THEN conjunct1]
  have a: "length (requestsOf (loadMasters good_backend False initial_context)) = 4"
    by simp
  from good [THEN conjunct2, THEN conjunct1, THEN mp, OF ok, THEN conjunct2, THEN conjunct2]
  have b: "run_effects (loadMasters good_backend False initial_context) initial_context
      = initial_context\<lparr>masters :=
            map (\<lambda>t. (t, map mappedItem (itemsOf (the (good_backend (dropdownRequest t)))))) types,
          loadedOnce := True, masters_loading := False\<rparr>" .
  have c: "masters (run_effects (loadMasters good_backend False initial_context) initial_context)
       = [(''ROLE'',
            [JObj [(''id'', JNum (Fin 1)), (''name'', JStr ''Admin''), (''code'', JStr ''ADM''),
                   (''status'', JStr ''Active'')],
             JObj [(''id'', JNum (Fin 2)), (''name'', JStr ''Manager''), (''code'', JNull),
                   (''status'', JStr ''Inactive'')]]),
          (''DEPARTMENT'', []), (''PROJECT'', []), (''MEASUREMENT'', [])]"
    and d: "loadedOnce (run_effects (loadMasters good_backend False initial_context) initial_context)"
    by (simp_all add: b types_def good_backend_bodies sample_mapped sample_items)
  have forced: "\<not> loadedOnce loaded_context \<or> True" by simp
  from loadMasters_all_or_nothing [of loaded_context True failing_backend,
      THEN conjunct1, THEN mp, OF forced, THEN conjunct2, THEN conjunct2, THEN mp, OF bad,
      THEN conjunct2, THEN conjunct2, THEN conjunct1]
  have e: "masters (run_effects (loadMasters failing_backend True loaded_context) loaded_context)
       = masters loaded_context" .
  note kept = loadMasters_all_or_nothing [of initial_context False null_item_backend,
      THEN conjunct1, THEN mp, OF fresh, THEN conjunct2, THEN conjunct2, THEN mp, OF nul,
      THEN conjunct2, THEN conjunct2]
  from kept [THEN conjunct1]
  have f: "masters (run_effects (loadMasters null_item_backend False initial_context) initial_context)
       = masters initial_context" .
  from kept [THEN conjunct2]
  have g: "\<not> loadedOnce (run_effects (loadMasters null_item_backend False initial_context) initial_context)"
    by (simp add: initial_context_def)
  from loadMasters_all_or_nothing [of loaded_context False good_backend,
      THEN conjunct2, THEN conjunct1, THEN mp, OF loaded]
  have h: "loadMasters good_backend False loaded_context = []" by simp
  from a c d e f g h show ?thesis by simp
qed

text \<open>
  The claim as first stated has every call issue four requests, has the masters
  committed once the four requests are made, and has the flag stay false after a
  failure. Once the masters are loaded, a call that does not force a reload returns at
  its first line and issues none; a forced reload that fails leaves the flag as it was,
  which is then true; and when all four requests succeed but the answer for the roles
  lists a null item, reading \<open>item.value\<close> throws into the same \<open>catch\<close> and nothing is
  committed.
\<close>

theorem loadMasters_loaded_counterexample:
  "loadedOnce loaded_context
   \<and> requestsOf (loadMasters good_backend False loaded_context) = []
   \<and> failing_backend (dropdownRequest ''PROJECT'') = None
   \<and> loadedOnce (run_effects (loadMasters failing_backend True loaded_context) loaded_context)
   \<and> list_all (\<lambda>t. null_item_backend (dropdownRequest t) \<noteq> None) types
   \<and> mastersUpdates (loadMasters null_item_backend False initial_context) = []
   \<and> \<not> loadedOnce (run_effects (loadMasters null_item_backend False initial_context) initial_context)"
proof -
  have a: "loadedOnce loaded_context" by (simp add: loaded_context_def initial_context_def)
  have b: "requestsOf (loadMasters good_backend False loaded_context) = []"
    by (simp add: a loadMasters_def requestsOf_def map_filter_simps)
  have c: "failing_backend (dropdownRequest ''PROJECT'') = None"
    by (simp add: failing_backend_def)
  have "\<not> loadable failing_backend"
    using c by (simp add: loadable_def types_def)
  then have "loadMasters failing_backend True loaded_context =
     [SetLoading True] @ map (\<lambda>t. Get (dropdownRequest t)) types @ [LogError, SetLoading False]"
    by (intro loadMasters_failure) simp_all
  then have d: "loadedOnce (run_effects (loadMasters failing_backend True loaded_context) loaded_context)"
    by (simp add: run_effects_def run_Get a)
  have e: "list_all (\<lambda>t. null_item_backend (dropdownRequest t) \<noteq> None) types"
    by (simp add: types_def null_item_backend_bodies)
  have fresh: "\<not> loadedOnce initial_context \<or> False" by (simp add: initial_context_def)
  have f: "mastersUpdates (loadMasters null_item_backend False initial_context) = []"
    using null_item_not_loadable by (simp add: mastersUpdates_loadMasters)
  have g: "\<not> loadedOnce (run_effects (loadMasters null_item_backend False initial_context) initial_context)"
    unfolding loadMasters_failure [OF fresh null_item_not_loadable]
    by (simp add: run_effects_def run_Get initial_context_def)
  from a b c d e f g show ?thesis by simp
qed

end